theory Spec2Isabelle
  imports Main
begin

section \<open>Errors, providers and the host filesystem\<close>

text \<open>
  Go's \<^verbatim>\<open>[]byte\<close> and \<^verbatim>\<open>string\<close> are both byte sequences. A slice that
  the code compares with \<^verbatim>\<open>nil\<close> is an \<open>option\<close>: \<open>None\<close> is the nil slice,
  \<open>Some []\<close> an empty one that is not nil.
\<close>

type_synonym bytes = string

text \<open>The error numbers an \<^verbatim>\<open>*os.PathError\<close> of \<^verbatim>\<open>os.Stat\<close> or
  \<^verbatim>\<open>ioutil.ReadFile\<close> carries.\<close>

datatype errno = ENOENT | EACCES | ENOTDIR | EISDIR | EIO

text \<open>
  Error values. \<open>Errorf fmt args\<close> is \<^verbatim>\<open>errors.New\<close> (no arguments) or
  \<^verbatim>\<open>errors.Errorf\<close>, \<open>Wrapf cause fmt args\<close> is \<^verbatim>\<open>errors.Wrap\<close> or
  \<^verbatim>\<open>errors.Wrapf\<close>; both keep the format string and its arguments apart, as
  written in the source. \<open>PathError op path no\<close> is what the operating system calls
  return. \<open>MissingVariable\<close> is the substitution engine's failure.
\<close>

datatype error =
    Errorf string "string list"
  | Wrapf error string "string list"
  | PathError string string errno
  | MissingVariable string

text \<open>\<^verbatim>\<open>os.IsNotExist\<close>: true of the operating system's own "no such file" error
  only; it does not look through a wrapped error.\<close>

fun os_IsNotExist :: "error \<Rightarrow> bool" where
  "os_IsNotExist (PathError _ _ ENOENT) = True"
| "os_IsNotExist _ = False"

text \<open>\<^verbatim>\<open>config.Provider\<close> is an interface of getters; the record holds what they
  return.\<close>

record Provider =
  Name :: string
  URL :: string
  Type :: string
  ManifestLabel :: string

text \<open>
  What \<^verbatim>\<open>getLocalOverride\<close> reads from its host: the home directory
  (\<^verbatim>\<open>homedir.HomeDir()\<close>), the constant \<^verbatim>\<open>config.ConfigFolder\<close>,
  \<^verbatim>\<open>filepath.Join\<close>, and the two file operations. \<open>Stat\<close> gives the error of
  \<^verbatim>\<open>os.Stat\<close> (\<open>None\<close> is nil); \<open>ReadFile\<close> gives the error or the content
  of \<^verbatim>\<open>ioutil.ReadFile\<close>, whose content is never the nil slice.
\<close>

record filesystem =
  HomeDir :: string
  ConfigFolder :: string
  Join :: "string list \<Rightarrow> string"
  Stat :: "string \<Rightarrow> error option"
  ReadFile :: "string \<Rightarrow> error + bytes"

text \<open>The calls a run makes on its collaborators, in order.\<close>

datatype event =
    EvStat string
  | EvReadFile string
  | EvGetFile string string
  | EvGetVariables
  | EvProcess
  | EvToUnstructured
  | EvFixTargetNamespace
  | EvParseURL string
  | EvNewGitHubRepository
  | EvNewLocalRepository

section \<open>Local override resolver\<close>

definition overrideFolder :: string where
  "overrideFolder = ''overrides''"

definition overridePath :: "filesystem \<Rightarrow> Provider \<Rightarrow> string \<Rightarrow> string \<Rightarrow> string" where
  "overridePath fs provider version path =
     (let homeFolder = Join fs [HomeDir fs, ConfigFolder fs]
      in Join fs [homeFolder, overrideFolder, ManifestLabel provider, version, path])"

definition getLocalOverride ::
  "filesystem \<Rightarrow> Provider \<Rightarrow> string \<Rightarrow> string \<Rightarrow> event list \<times> (error + bytes option)" where
  "getLocalOverride fs provider version path =
     (let p = overridePath fs provider version path
      in case Stat fs p of
           None \<Rightarrow>
             (case ReadFile fs p of
                Inl err \<Rightarrow>
                  ([EvStat p, EvReadFile p],
                   Inl (Wrapf err ''failed to read local override for %s/%s/%s''
                          [ManifestLabel provider, version, path]))
              | Inr content \<Rightarrow> ([EvStat p, EvReadFile p], Inr (Some content)))
         | Some err \<Rightarrow>
             if os_IsNotExist err then ([EvStat p], Inr None)
             else ([EvStat p], Inl err))"

section \<open>Repository backends and the variable source\<close>

text \<open>The \<^verbatim>\<open>Repository\<close> interface (part_001:119-139) as the record of what its
  methods return.\<close>

record Repository =
  DefaultVersion :: string
  RootPath :: string
  ComponentsPath :: string
  GetFile :: "string \<Rightarrow> string \<Rightarrow> error + bytes"
  GetVersions :: "error + string list"

text \<open>\<^verbatim>\<open>VariablesGetter.Get(key) (string, error)\<close>: a variable is absent from the
  source when the lookup returns an error.\<close>

type_synonym VariablesGetter = "string \<Rightarrow> error + string"

text \<open>
  The block "read the component YAML, reading the local override file if it exists,
  otherwise read from the provider repository", which the source repeats in
  \<^verbatim>\<open>templateClient.Get\<close> (part_000:261-280), \<^verbatim>\<open>componentsClient.Get\<close>
  (components_client.go:61-77) and \<^verbatim>\<open>defaultTemplateProcessor.Fetch\<close>
  (part_003:56-75). The components client calls \<^verbatim>\<open>getLocalOverride\<close> with the
  provider, the version and the path; the template client and \<^verbatim>\<open>Fetch\<close> pass
  the same three values as the fields \<^verbatim>\<open>provider\<close>, \<^verbatim>\<open>version\<close> and
  \<^verbatim>\<open>filePath\<close> of a struct. A \<^verbatim>\<open>GetFile\<close> that succeeds gives the bytes
  that are used from there on.
\<close>

definition readArtifact ::
  "filesystem \<Rightarrow> Provider \<Rightarrow> Repository \<Rightarrow> string \<Rightarrow> string \<Rightarrow> event list \<times> (error + bytes)" where
  "readArtifact fs provider repository version name =
     (case getLocalOverride fs provider version name of
        (tr, Inl err) \<Rightarrow> (tr, Inl err)
      | (tr, Inr None) \<Rightarrow>
          (case GetFile repository version name of
             Inl err \<Rightarrow>
               (tr @ [EvGetFile version name],
                Inl (Wrapf err ''failed to read %q from provider's repository %q''
                       [name, ManifestLabel provider]))
           | Inr file \<Rightarrow> (tr @ [EvGetFile version name], Inr file))
      | (tr, Inr (Some file)) \<Rightarrow> (tr, Inr file))"

section \<open>Variable substitution engine\<close>

text \<open>
  The processors call \<^verbatim>\<open>inspectVariables\<close> and \<^verbatim>\<open>replaceVariables\<close>, whose
  definitions are missing from the sources. Every definition of this section is
  written from section 4.1 of the specification: a placeholder is \<^verbatim>\<open>${NAME}\<close> or
  \<^verbatim>\<open>$NAME\<close>, where \<^verbatim>\<open>NAME\<close> matches \<^verbatim>\<open>[A-Za-z_][A-Za-z0-9_]*\<close>,
  and the bare form counts only when it is not adjacent to an identifier character:
  the dollar sign is not preceded by one, and the name extends to the last identifier
  character that follows.
\<close>

text \<open>Modelled from the spec: the characters of a placeholder name, which is missing
  from the sources with the scanner; \<^verbatim>\<open>[A-Za-z_]\<close> first, \<^verbatim>\<open>[A-Za-z0-9_]\<close>
  after.\<close>

definition isIdentStart :: "char \<Rightarrow> bool" where
  "isIdentStart c = (c \<in> set ''ABCDEFGHIJKLMNOPQRSTUVWXYZabcdefghijklmnopqrstuvwxyz_'')"

text \<open>Modelled from the spec: the characters a name goes on with, missing from the
  sources.\<close>

definition isIdentChar :: "char \<Rightarrow> bool" where
  "isIdentChar c = (isIdentStart c \<or> c \<in> set ''0123456789'')"

text \<open>Modelled from the spec: the test of a name, missing from the sources. It is
  applied to a longest run of identifier characters, which is a name when it starts
  with a letter or an underscore.\<close>

definition validName :: "string \<Rightarrow> bool" where
  "validName n = (case n of [] \<Rightarrow> False | c # _ \<Rightarrow> isIdentStart c)"

text \<open>Modelled from the spec: the scanner of placeholders, missing from the sources.
  The scan cuts a text into single characters and placeholders; a placeholder keeps
  its name and the text it was written as.\<close>

datatype segment = Text char | Placeholder string string

text \<open>Modelled from the spec: the text a segment was written as, missing from the
  sources with the scanner.\<close>

fun segText :: "segment \<Rightarrow> string" where
  "segText (Text c) = [c]"
| "segText (Placeholder n t) = t"

text \<open>Modelled from the spec: the two placeholder forms, missing from the sources.
  \<open>placeholderAt prev cs\<close> looks at the text \<open>cs\<close> that follows a dollar sign,
  \<open>prev\<close> telling whether the character before the dollar sign is an identifier
  character; it gives the placeholder that starts there and the text after it.\<close>

definition placeholderAt :: "bool \<Rightarrow> string \<Rightarrow> (segment \<times> string) option" where
  "placeholderAt prev cs =
     (case cs of
        [] \<Rightarrow> None
      | d # rest \<Rightarrow>
          if d = CHR ''{'' then
            (let n = takeWhile isIdentChar rest; r = dropWhile isIdentChar rest
             in if validName n \<and> take 1 r = ''}''
                then Some (Placeholder n (''${'' @ n @ ''}''), drop 1 r) else None)
          else
            (let n = takeWhile isIdentChar cs; r = dropWhile isIdentChar cs
             in if validName n \<and> \<not> prev
                then Some (Placeholder n (CHR ''$'' # n), r) else None))"

text \<open>Modelled from the spec: the single scan of the text, missing from the sources.
  A dollar sign that starts no placeholder is an ordinary character.\<close>

function scan :: "bool \<Rightarrow> string \<Rightarrow> segment list" where
  "scan prev [] = []"
| "scan prev (c # cs) =
     (if c = CHR ''$'' then
        (case placeholderAt prev cs of
           Some (seg, rest) \<Rightarrow> seg # scan (isIdentChar (last (segText seg))) rest
         | None \<Rightarrow> Text c # scan False cs)
      else Text c # scan (isIdentChar c) cs)"
  by pat_completeness auto
termination
proof (relation "measure (\<lambda>(prev, s). length s)")
  fix prev :: bool and c :: char and cs :: string and x2 seg rest
  assume "placeholderAt prev cs = Some x2" and "(seg, rest) = x2"
  then have "length rest \<le> length cs"
    using length_dropWhile_le [of isIdentChar cs] length_dropWhile_le [of isIdentChar "tl cs"]
    by (auto simp: placeholderAt_def Let_def split: list.splits if_splits)
  then show "((isIdentChar (last (segText seg)), rest), prev, c # cs)
               \<in> measure (\<lambda>(prev, s). length s)"
    by simp
qed auto

text \<open>Modelled from the spec: the names of the placeholders of a text, one for each
  occurrence, in the order of the text; missing from the sources.\<close>

definition placeholderNames :: "bytes \<Rightarrow> string list" where
  "placeholderNames raw =
     concat (map (\<lambda>seg. case seg of Text _ \<Rightarrow> [] | Placeholder n _ \<Rightarrow> [n]) (scan False raw))"

text \<open>Modelled from the spec: \<^verbatim>\<open>inspectVariables\<close> (Discover), missing from the
  sources, is a single scan that gives the distinct names in the order of their first
  occurrence.\<close>

definition inspectVariables :: "bytes \<Rightarrow> string list" where
  "inspectVariables raw =
     fold (\<lambda>n acc. if n \<in> set acc then acc else acc @ [n]) (placeholderNames raw) []"

text \<open>Modelled from the spec: the substitution policy for one segment, missing from
  the sources. A character stays; a placeholder of a listed name that the source knows
  is replaced by the value, literally; any other placeholder stays as it was
  written.\<close>

definition substituteSegment :: "string list \<Rightarrow> VariablesGetter \<Rightarrow> segment \<Rightarrow> string" where
  "substituteSegment variables src seg =
     (case seg of
        Text c \<Rightarrow> [c]
      | Placeholder n t \<Rightarrow>
          if n \<in> set variables then (case src n of Inr val \<Rightarrow> val | Inl _ \<Rightarrow> t) else t)"

text \<open>
  Modelled from the spec: \<^verbatim>\<open>replaceVariables\<close> (Substitute), missing from the
  sources, looks each name up in the variable source. Found: every occurrence of its
  placeholder is replaced. Not found and \<open>skipVariables\<close>: the placeholder text is
  left untouched in the output. Not found otherwise: the call fails with
  \<open>MissingVariable\<close> of the first such name and returns no text. The output is a new
  byte sequence built from the raw one in one pass, so that a value put in is not
  scanned again.
\<close>

definition replaceVariables ::
  "bytes \<Rightarrow> string list \<Rightarrow> VariablesGetter \<Rightarrow> bool \<Rightarrow> error + bytes" where
  "replaceVariables yaml variables src skipVariables =
     (case filter (\<lambda>key. isl (src key)) variables of
        [] \<Rightarrow> Inr (concat (map (substituteSegment variables src) (scan False yaml)))
      | key # _ \<Rightarrow>
          if skipVariables
          then Inr (concat (map (substituteSegment variables src) (scan False yaml)))
          else Inl (MissingVariable key))"

section \<open>The YAML processors\<close>

text \<open>\<^verbatim>\<open>defaultYamlProcessor\<close> (template_processor_default.go).\<close>

record defaultYamlProcessor =
  skipVariables :: bool

definition newDefaultYamlProcessor :: "bool \<Rightarrow> defaultYamlProcessor" where
  "newDefaultYamlProcessor skip = \<lparr> skipVariables = skip \<rparr>"

definition ArtifactName :: "defaultYamlProcessor \<Rightarrow> string \<Rightarrow> string \<Rightarrow> string" where
  "ArtifactName tp version flavor =
     (let name = ''cluster-template'';
          name = (if flavor \<noteq> [] then name @ ''-'' @ flavor else name)
      in name @ ''.yaml'')"

definition GetVariables :: "defaultYamlProcessor \<Rightarrow> bytes \<Rightarrow> error + string list" where
  "GetVariables tp rawArtifact = Inr (inspectVariables rawArtifact)"

definition Process :: "defaultYamlProcessor \<Rightarrow> bytes \<Rightarrow> VariablesGetter \<Rightarrow> error + bytes" where
  "Process tp rawArtifact variablesGetter =
     (let variables = inspectVariables rawArtifact
      in case replaceVariables rawArtifact variables variablesGetter (skipVariables tp) of
           Inl err \<Rightarrow> Inl err
         | Inr processedYaml \<Rightarrow> Inr processedYaml)"

section \<open>Objects and templates\<close>

text \<open>An \<^verbatim>\<open>unstructured.Unstructured\<close> object: its kind, name and namespace, and
  the rest of its fields.\<close>

record unstructured =
  objKind :: string
  objName :: string
  objNamespace :: string
  objContent :: "(string \<times> string) list"

text \<open>The converter \<^verbatim>\<open>util.ToUnstructured\<close> and the table of the kinds that are
  namespace-scoped: both are missing from the sources and are parameters.\<close>

record collaborators =
  ToUnstructured :: "bytes \<Rightarrow> error + unstructured list"
  namespaceScoped :: "string \<Rightarrow> bool"

text \<open>
  Modelled from the spec: \<^verbatim>\<open>fixTargetNamespace\<close>, which
  \<^verbatim>\<open>templateClient.Get\<close> calls and which is missing from the sources. Section 4.5:
  it walks the object list and, for every object whose kind is namespace-scoped,
  overwrites the namespace field with the target namespace, leaving cluster-scoped
  objects unmodified.
\<close>

definition fixTargetNamespace ::
  "collaborators \<Rightarrow> unstructured list \<Rightarrow> string \<Rightarrow> unstructured list" where
  "fixTargetNamespace cv objs ns =
     map (\<lambda>obj. if namespaceScoped cv (objKind obj) then obj\<lparr>objNamespace := ns\<rparr> else obj) objs"

text \<open>The struct \<^verbatim>\<open>template\<close> (part_002:46-55); each field carries the name of the
  method of \<^verbatim>\<open>Template\<close> that returns it. A nil slice is the empty list.\<close>

record template =
  Variables :: "string list"
  TargetNamespace :: string
  Objs :: "unstructured list"
  RawYaml :: bytes

section \<open>Templates client on a YamlProcessor\<close>

text \<open>\<^verbatim>\<open>templateClient\<close> of part_000:215-221.\<close>

record templateClient =
  listVariablesOnly :: bool
  provider :: Provider
  repository :: Repository
  configVariablesClient :: VariablesGetter
  processor :: defaultYamlProcessor

text \<open>\<^verbatim>\<open>newTemplateClient\<close> (part_000:234-246); the fields of its input struct are
  the arguments.\<close>

definition newTemplateClient ::
  "bool \<Rightarrow> Provider \<Rightarrow> Repository \<Rightarrow> VariablesGetter \<Rightarrow> templateClient" where
  "newTemplateClient input_listVariablesOnly input_provider input_repository
       input_configVariablesClient =
     \<lparr> listVariablesOnly = input_listVariablesOnly,
       provider = input_provider,
       repository = input_repository,
       configVariablesClient = input_configVariablesClient,
       processor = newDefaultYamlProcessor input_listVariablesOnly \<rparr>"

text \<open>Lines 282-314 of \<^verbatim>\<open>templateClient.Get\<close>: what happens to the raw artifact
  once it is read.\<close>

definition renderArtifact ::
  "collaborators \<Rightarrow> templateClient \<Rightarrow> string \<Rightarrow> bytes \<Rightarrow> event list \<times> (error + template)" where
  "renderArtifact cv c ns rawArtifact =
     (case GetVariables (processor c) rawArtifact of
        Inl err \<Rightarrow> ([EvGetVariables], Inl err)
      | Inr variables \<Rightarrow>
          if listVariablesOnly c then
            ([EvGetVariables],
             Inr \<lparr> Variables = variables, TargetNamespace = [], Objs = [], RawYaml = [] \<rparr>)
          else
            (case Process (processor c) rawArtifact (configVariablesClient c) of
               Inl err \<Rightarrow> ([EvGetVariables, EvProcess], Inl err)
             | Inr processedYaml \<Rightarrow>
                 (case ToUnstructured cv processedYaml of
                    Inl err \<Rightarrow>
                      ([EvGetVariables, EvProcess, EvToUnstructured],
                       Inl (Wrapf err ''failed to parse yaml'' []))
                  | Inr objs \<Rightarrow>
                      ([EvGetVariables, EvProcess, EvToUnstructured, EvFixTargetNamespace],
                       Inr \<lparr> Variables = [], TargetNamespace = ns,
                             Objs = fixTargetNamespace cv objs ns, RawYaml = [] \<rparr>))))"

text \<open>\<^verbatim>\<open>templateClient.Get\<close> (part_000:252-315).\<close>

definition templateClient_Get ::
  "filesystem \<Rightarrow> collaborators \<Rightarrow> templateClient \<Rightarrow> string \<Rightarrow> string \<Rightarrow> string
     \<Rightarrow> event list \<times> (error + template)" where
  "templateClient_Get fs cv c version flavor ns =
     (if ns = [] then
        ([], Inl (Errorf ''invalid arguments: please provide a targetNamespace'' []))
      else
        (let name = ArtifactName (processor c) version flavor
         in case readArtifact fs (provider c) (repository c) version name of
              (tr, Inl err) \<Rightarrow> (tr, Inl err)
            | (tr, Inr rawArtifact) \<Rightarrow>
                (case renderArtifact cv c ns rawArtifact of (tr', res) \<Rightarrow> (tr @ tr', res))))"

section \<open>Templates client on a TemplateProcessor\<close>

text \<open>\<^verbatim>\<open>defaultTemplateProcessor\<close> (part_003); its methods take the template by
  pointer, so \<open>GetVariables_tp\<close> returns the template it has written to.\<close>

record defaultTemplateProcessor =
  tp_skipVariables :: bool
  tp_variablesGetter :: VariablesGetter
  tp_provider :: Provider
  tp_repository :: Repository

definition newDefaultTemplateProcessor ::
  "bool \<Rightarrow> VariablesGetter \<Rightarrow> Provider \<Rightarrow> Repository \<Rightarrow> defaultTemplateProcessor" where
  "newDefaultTemplateProcessor skip getter prov repo =
     \<lparr> tp_skipVariables = skip, tp_variablesGetter = getter,
       tp_provider = prov, tp_repository = repo \<rparr>"

definition Fetch ::
  "filesystem \<Rightarrow> defaultTemplateProcessor \<Rightarrow> string \<Rightarrow> string \<Rightarrow> event list \<times> (error + template)" where
  "Fetch fs tp version flavor =
     (let name = ''cluster-template'';
          name = (if flavor \<noteq> [] then name @ ''-'' @ flavor else name);
          name = name @ ''.yaml''
      in case readArtifact fs (tp_provider tp) (tp_repository tp) version name of
           (tr, Inl err) \<Rightarrow> (tr, Inl err)
         | (tr, Inr rawYaml) \<Rightarrow>
             (tr, Inr \<lparr> Variables = [], TargetNamespace = [], Objs = [], RawYaml = rawYaml \<rparr>))"

definition GetVariables_tp :: "defaultTemplateProcessor \<Rightarrow> template \<Rightarrow> error option \<times> template" where
  "GetVariables_tp tp t = (None, t\<lparr>Variables := inspectVariables (RawYaml t)\<rparr>)"

definition ProcessYAML :: "defaultTemplateProcessor \<Rightarrow> template \<Rightarrow> error + bytes" where
  "ProcessYAML tp t =
     (case replaceVariables (RawYaml t) (Variables t) (tp_variablesGetter tp) (tp_skipVariables tp) of
        Inl err \<Rightarrow> Inl err
      | Inr processedYaml \<Rightarrow> Inr processedYaml)"

text \<open>\<^verbatim>\<open>templateClient\<close> of part_000:58-64.\<close>

record templateClient_tp =
  tc_listVariablesOnly :: bool
  tc_provider :: Provider
  tc_repository :: Repository
  tc_configVariablesClient :: VariablesGetter
  tc_processor :: defaultTemplateProcessor

definition newTemplateClient_tp ::
  "bool \<Rightarrow> Provider \<Rightarrow> Repository \<Rightarrow> VariablesGetter \<Rightarrow> templateClient_tp" where
  "newTemplateClient_tp input_listVariablesOnly input_provider input_repository
       input_configVariablesClient =
     \<lparr> tc_listVariablesOnly = input_listVariablesOnly,
       tc_provider = input_provider,
       tc_repository = input_repository,
       tc_configVariablesClient = input_configVariablesClient,
       tc_processor = newDefaultTemplateProcessor input_listVariablesOnly
                        input_configVariablesClient input_provider input_repository \<rparr>"

text \<open>\<^verbatim>\<open>templateClient.Get\<close> (part_000:98-157).\<close>

definition templateClient_Get_tp ::
  "filesystem \<Rightarrow> collaborators \<Rightarrow> templateClient_tp \<Rightarrow> string \<Rightarrow> string \<Rightarrow> string
     \<Rightarrow> event list \<times> (error + template)" where
  "templateClient_Get_tp fs cv c version flavor ns =
     (if ns = [] then
        ([], Inl (Errorf ''invalid arguments: please provide a targetNamespace'' []))
      else
        (case Fetch fs (tc_processor c) version flavor of
           (tr, Inl err) \<Rightarrow> (tr, Inl err)
         | (tr, Inr t0) \<Rightarrow>
             (case GetVariables_tp (tc_processor c) t0 of
                (Some err, t) \<Rightarrow> (tr @ [EvGetVariables], Inl err)
              | (None, t) \<Rightarrow>
                  if tc_listVariablesOnly c then (tr @ [EvGetVariables], Inr t)
                  else
                    (case ProcessYAML (tc_processor c) t of
                       Inl err \<Rightarrow> (tr @ [EvGetVariables, EvProcess], Inl err)
                     | Inr processedYaml \<Rightarrow>
                         (case ToUnstructured cv processedYaml of
                            Inl err \<Rightarrow>
                              (tr @ [EvGetVariables, EvProcess, EvToUnstructured],
                               Inl (Wrapf err ''failed to parse yaml'' []))
                          | Inr objs \<Rightarrow>
                              (tr @ [EvGetVariables, EvProcess, EvToUnstructured,
                                     EvFixTargetNamespace],
                               Inr (t\<lparr>Objs := fixTargetNamespace cv objs ns,
                                       TargetNamespace := ns\<rparr>)))))))"

section \<open>Components client\<close>



section \<open>Repository client\<close>

text \<open>The two fields of \<^verbatim>\<open>*url.URL\<close> that the factory reads.\<close>

record url =
  Scheme :: string
  Host :: string

text \<open>\<^verbatim>\<open>url.Parse\<close> and the constructors of the two backends, which are missing
  from the sources and are parameters.\<close>

record backends =
  Parse :: "string \<Rightarrow> error + url"
  newGitHubRepository :: "Provider \<Rightarrow> VariablesGetter \<Rightarrow> error + Repository"
  newLocalRepository :: "Provider \<Rightarrow> VariablesGetter \<Rightarrow> error + Repository"

text \<open>Modelled from the spec: the constants \<^verbatim>\<open>httpsScheme\<close> and \<^verbatim>\<open>githubDomain\<close>,
  whose declarations are missing from the sources; their values are those of the
  backend selection examples of the specification and of client_test.go.\<close>

definition httpsScheme :: string where
  "httpsScheme = ''https''"

definition githubDomain :: string where
  "githubDomain = ''github.com''"

definition repositoryFactory ::
  "backends \<Rightarrow> Provider \<Rightarrow> VariablesGetter \<Rightarrow> event list \<times> (error + Repository)" where
  "repositoryFactory b providerConfig variablesClient =
     (case Parse b (URL providerConfig) of
        Inl err \<Rightarrow>
          ([EvParseURL (URL providerConfig)],
           Inl (Errorf ''failed to parse repository url %q'' [URL providerConfig]))
      | Inr rURL \<Rightarrow>
          if Scheme rURL = httpsScheme \<and> Host rURL = githubDomain then
            (case newGitHubRepository b providerConfig variablesClient of
               Inl err \<Rightarrow>
                 ([EvParseURL (URL providerConfig), EvNewGitHubRepository],
                  Inl (Wrapf err ''error creating the GitHub repository client'' []))
             | Inr repo \<Rightarrow>
                 ([EvParseURL (URL providerConfig), EvNewGitHubRepository], Inr repo))
          else if Scheme rURL = ''file'' \<or> Scheme rURL = [] then
            (case newLocalRepository b providerConfig variablesClient of
               Inl err \<Rightarrow>
                 ([EvParseURL (URL providerConfig), EvNewLocalRepository],
                  Inl (Wrapf err ''error creating the local filesystem repository client'' []))
             | Inr repo \<Rightarrow>
                 ([EvParseURL (URL providerConfig), EvNewLocalRepository], Inr repo))
          else
            ([EvParseURL (URL providerConfig)],
             Inl (Errorf
                    ''invalid provider url. there are no provider implementation for %q schema''
                    [Scheme rURL])))"

text \<open>\<^verbatim>\<open>repositoryClient\<close> (part_001:53-57); the repository is an interface value,
  \<open>None\<close> when nil.\<close>

record repositoryClient =
  rc_Provider :: Provider
  rc_configVariablesClient :: VariablesGetter
  rc_repository :: "Repository option"

type_synonym Option = "repositoryClient \<Rightarrow> repositoryClient"

definition InjectRepository :: "Repository option \<Rightarrow> Option" where
  "InjectRepository repo = (\<lambda>c. c\<lparr>rc_repository := repo\<rparr>)"

definition newRepositoryClient ::
  "backends \<Rightarrow> Provider \<Rightarrow> VariablesGetter \<Rightarrow> Option list
     \<Rightarrow> event list \<times> (error + repositoryClient)" where
  "newRepositoryClient b prov variablesClient options =
     (let client = fold (\<lambda>opt c. opt c) options
                     \<lparr> rc_Provider = prov,
                       rc_configVariablesClient = variablesClient,
                       rc_repository = None \<rparr>
      in case rc_repository client of
           None \<Rightarrow>
             (case repositoryFactory b prov variablesClient of
                (tr, Inl err) \<Rightarrow>
                  (tr, Inl (Wrapf err ''failed to get repository client for the %s with name %s''
                              [Type prov, Name prov]))
              | (tr, Inr r) \<Rightarrow> (tr, Inr (client\<lparr>rc_repository := Some r\<rparr>)))
         | Some _ \<Rightarrow> ([], Inr client))"

text \<open>\<^verbatim>\<open>New\<close> (part_001:91-93).\<close>

definition New ::
  "backends \<Rightarrow> Provider \<Rightarrow> VariablesGetter \<Rightarrow> Option list
     \<Rightarrow> event list \<times> (error + repositoryClient)" where
  "New b prov variablesClient options =
     newRepositoryClient b prov variablesClient options"

section \<open>Concrete collaborators\<close>

text \<open>A host, a provider, a repository and a variable source on which the
  definitions are run: paths joined with slashes, two override files on disk, one
  path that may not be inspected.\<close>

fun joinSlash :: "string list \<Rightarrow> string" where
  "joinSlash [] = []"
| "joinSlash [p] = p"
| "joinSlash (p # q # ps) = p @ ''/'' @ joinSlash (q # ps)"

definition demoFs :: filesystem where
  "demoFs =
     \<lparr> HomeDir = ''/home/dev'',
       ConfigFolder = ''.cluster-api'',
       Join = joinSlash,
       Stat = (\<lambda>p.
         if p = ''/home/dev/.cluster-api/overrides/infrastructure-aws/v1.0.0/cluster-template.yaml''
         then None
         else if p = ''/home/dev/.cluster-api/overrides/infrastructure-aws/v1.0.0/infrastructure-components.yaml''
         then None
         else if p = ''/home/dev/.cluster-api/overrides/infrastructure-aws/v0.9.0/cluster-template.yaml''
         then Some (PathError ''stat'' p EACCES)
         else Some (PathError ''stat'' p ENOENT)),
       ReadFile = (\<lambda>p.
         if p = ''/home/dev/.cluster-api/overrides/infrastructure-aws/v1.0.0/cluster-template.yaml''
         then Inr ''name: ${CLUSTER_NAME}''
         else if p = ''/home/dev/.cluster-api/overrides/infrastructure-aws/v1.0.0/infrastructure-components.yaml''
         then Inr ''kind: Deployment''
         else Inl (PathError ''open'' p ENOENT)) \<rparr>"

definition demoProvider :: Provider where
  "demoProvider =
     \<lparr> Name = ''aws'',
       URL = ''https://github.com/myorg/myrepo/releases/v1.0.0/infrastructure-components.yaml'',
       Type = ''InfrastructureProvider'',
       ManifestLabel = ''infrastructure-aws'' \<rparr>"

definition demoRepository :: Repository where
  "demoRepository =
     \<lparr> DefaultVersion = ''v2.0.0'',
       RootPath = ''myorg/myrepo'',
       ComponentsPath = ''infrastructure-components.yaml'',
       GetFile = (\<lambda>version path.
         if version = ''v2.0.0'' \<and> path = ''cluster-template.yaml''
         then Inr ''ns: ${NAMESPACE} name: $CLUSTER_NAME''
         else Inl (Errorf ''release not found'' [])),
       GetVersions = Inr [''v2.0.0'', ''v1.0.0''] \<rparr>"

definition demoVariables :: VariablesGetter where
  "demoVariables =
     (\<lambda>key. if key = ''CLUSTER_NAME'' then Inr ''foo''
            else if key = ''NAMESPACE'' then Inr ''bar''
            else Inl (Errorf ''Failed to get value for variable %q'' [key]))"

definition demoObjects :: "unstructured list" where
  "demoObjects =
     [ \<lparr> objKind = ''Cluster'', objName = ''foo'', objNamespace = ''default'',
         objContent = [] \<rparr>,
       \<lparr> objKind = ''CustomResourceDefinition'', objName = ''clusters.cluster.x-k8s.io'',
         objNamespace = [], objContent = [(''scope'', ''Namespaced'')] \<rparr> ]"

definition demoCollaborators :: collaborators where
  "demoCollaborators =
     \<lparr> ToUnstructured = (\<lambda>yaml.
         if yaml = ''name: foo'' \<or> yaml = ''ns: bar name: foo'' then Inr demoObjects
         else Inl (Errorf ''error unmarshalling'' [])),
       namespaceScoped = (\<lambda>kind. kind \<noteq> ''CustomResourceDefinition'' \<and> kind \<noteq> ''Namespace'') \<rparr>"

definition demoBackends :: backends where
  "demoBackends =
     \<lparr> Parse = (\<lambda>u.
         if u = ''https://github.com/myorg/myrepo/releases/v1.0.0/infrastructure-components.yaml''
         then Inr \<lparr> Scheme = ''https'', Host = ''github.com'' \<rparr>
         else if u = ''http://github.com/myorg/myrepo''
         then Inr \<lparr> Scheme = ''http'', Host = ''github.com'' \<rparr>
         else if u = ''/tmp/bootstrap-foo/v1.0.0/bootstrap-components.yaml''
         then Inr \<lparr> Scheme = [], Host = [] \<rparr>
         else Inl (Errorf ''parse: invalid URL'' [u])),
       newGitHubRepository = (\<lambda>p v. Inr demoRepository),
       newLocalRepository = (\<lambda>p v. Inr (demoRepository\<lparr>RootPath := ''/tmp/bootstrap-foo''\<rparr>)) \<rparr>"

text \<open>The template of the end-to-end scenario of the specification.\<close>

definition specTemplate :: bytes where
  "specTemplate =
     ''cluster: ${CLUSTER_NAME}'' @ [CHR 0x0A] @ ''namespace: ${NAMESPACE}'' @ [CHR 0x0A]"

definition demoClient :: templateClient where
  "demoClient = newTemplateClient False demoProvider demoRepository demoVariables"

definition demoListClient :: templateClient where
  "demoListClient = newTemplateClient True demoProvider demoRepository demoVariables"

definition demoClient_tp :: templateClient_tp where
  "demoClient_tp = newTemplateClient_tp False demoProvider demoRepository demoVariables"

definition demoListClient_tp :: templateClient_tp where
  "demoListClient_tp = newTemplateClient_tp True demoProvider demoRepository demoVariables"



definition demoOverridePath :: string where
  "demoOverridePath =
     ''/home/dev/.cluster-api/overrides/infrastructure-aws/v1.0.0/cluster-template.yaml''"

definition demoComponentsOverridePath :: string where
  "demoComponentsOverridePath =
     ''/home/dev/.cluster-api/overrides/infrastructure-aws/v1.0.0/infrastructure-components.yaml''"

definition demoRendered :: template where
  "demoRendered =
     \<lparr> Variables = [], TargetNamespace = ''target'',
       Objs = [ \<lparr> objKind = ''Cluster'', objName = ''foo'', objNamespace = ''target'',
                  objContent = [] \<rparr>,
                \<lparr> objKind = ''CustomResourceDefinition'',
                  objName = ''clusters.cluster.x-k8s.io'',
                  objNamespace = [], objContent = [(''scope'', ''Namespaced'')] \<rparr> ],
       RawYaml = [] \<rparr>"

definition demoHttpProvider :: Provider where
  "demoHttpProvider = demoProvider \<lparr> URL := ''http://github.com/myorg/myrepo'' \<rparr>"

definition demoLocalProvider :: Provider where
  "demoLocalProvider =
     demoProvider \<lparr> URL := ''/tmp/bootstrap-foo/v1.0.0/bootstrap-components.yaml'' \<rparr>"

definition demoBadProvider :: Provider where
  "demoBadProvider = demoProvider \<lparr> URL := ''https://github.com/%zz'' \<rparr>"

section \<open>Runs on the concrete collaborators\<close>

lemma demo_overridePath:
  "overridePath demoFs demoProvider ''v1.0.0'' ''cluster-template.yaml'' = demoOverridePath"
  "overridePath demoFs demoProvider ''v1.0.0'' ''infrastructure-components.yaml''
     = demoComponentsOverridePath"
  "Stat demoFs demoOverridePath = None"
  "ReadFile demoFs demoOverridePath = Inr ''name: ${CLUSTER_NAME}''"
  "Stat demoFs demoComponentsOverridePath = None"
  "ReadFile demoFs demoComponentsOverridePath = Inr ''kind: Deployment''"
  by (simp_all add: overridePath_def overrideFolder_def demoFs_def demoProvider_def
        demoOverridePath_def demoComponentsOverridePath_def)

lemma demo_readArtifact:
  "readArtifact demoFs demoProvider demoRepository ''v1.0.0'' ''cluster-template.yaml''
     = ([EvStat demoOverridePath, EvReadFile demoOverridePath], Inr ''name: ${CLUSTER_NAME}'')"
  by (simp add: readArtifact_def getLocalOverride_def demo_overridePath Let_def)

lemma demo_ArtifactName: "ArtifactName tp version [] = ''cluster-template.yaml''"
  by (simp add: ArtifactName_def)

lemma demo_inspectVariables:
  "inspectVariables ''name: ${CLUSTER_NAME}'' = [''CLUSTER_NAME'']"
  "inspectVariables ''img: ${IMAGE}'' = [''IMAGE'']"
  "inspectVariables ''name: foo'' = []"
  by (simp_all add: inspectVariables_def placeholderNames_def placeholderAt_def validName_def
        isIdentChar_def isIdentStart_def Let_def)

text \<open>The end-to-end scenario of the specification, and one text with placeholders
  of both forms among dollar signs that start none.\<close>

lemma spec_scenario:
  "inspectVariables specTemplate = [''CLUSTER_NAME'', ''NAMESPACE'']"
  "replaceVariables specTemplate [''CLUSTER_NAME'', ''NAMESPACE''] demoVariables False
     = Inr (''cluster: foo'' @ [CHR 0x0A] @ ''namespace: bar'' @ [CHR 0x0A])"
  by code_simp+

lemma inspectVariables_forms:
  "inspectVariables ''a: ${X} b: $Y_1 c$Z $$ ${} ${1A} $1 ${X}${W} ${Q''
     = [''X'', ''Y_1'', ''W'']"
  by code_simp

lemma demo_replaceVariables:
  "replaceVariables ''name: ${CLUSTER_NAME}'' [''CLUSTER_NAME''] demoVariables False
     = Inr ''name: foo''"
  by (simp add: replaceVariables_def substituteSegment_def placeholderAt_def validName_def
        isIdentChar_def isIdentStart_def demoVariables_def Let_def)

lemma demo_fields:
  "provider demoClient = demoProvider" "repository demoClient = demoRepository"
  "configVariablesClient demoClient = demoVariables" "\<not> listVariablesOnly demoClient"
  "\<not> skipVariables (processor demoClient)"
  "provider demoListClient = demoProvider" "repository demoListClient = demoRepository"
  "listVariablesOnly demoListClient"
  "tp_provider (tc_processor demoClient_tp) = demoProvider"
  "tp_repository (tc_processor demoClient_tp) = demoRepository"
  "tp_variablesGetter (tc_processor demoClient_tp) = demoVariables"
  "\<not> tp_skipVariables (tc_processor demoClient_tp)"
  "\<not> tc_listVariablesOnly demoClient_tp"
  "tp_provider (tc_processor demoListClient_tp) = demoProvider"
  "tp_repository (tc_processor demoListClient_tp) = demoRepository"
  "tp_variablesGetter (tc_processor demoListClient_tp) = demoVariables"
  "tp_skipVariables (tc_processor demoListClient_tp)"
  "tc_listVariablesOnly demoListClient_tp"
  by (simp_all add: demoClient_def demoListClient_def demoClient_tp_def demoListClient_tp_def
        newTemplateClient_def newTemplateClient_tp_def newDefaultYamlProcessor_def
        newDefaultTemplateProcessor_def)

lemma demo_ToUnstructured: "ToUnstructured demoCollaborators ''name: foo'' = Inr demoObjects"
  by (simp add: demoCollaborators_def)

lemma demo_fixTargetNamespace:
  "fixTargetNamespace demoCollaborators demoObjects ''target'' = Objs demoRendered"
  by (simp add: fixTargetNamespace_def demoCollaborators_def demoObjects_def demoRendered_def)

lemma demo_Get:
  "templateClient_Get demoFs demoCollaborators demoClient ''v1.0.0'' [] ''target''
     = ([EvStat demoOverridePath, EvReadFile demoOverridePath,
         EvGetVariables, EvProcess, EvToUnstructured, EvFixTargetNamespace],
        Inr demoRendered)"
  by (simp add: templateClient_Get_def renderArtifact_def demo_ArtifactName demo_fields
        demo_readArtifact GetVariables_def Process_def demo_inspectVariables
        demo_replaceVariables demo_ToUnstructured demo_fixTargetNamespace demoRendered_def)

lemma demo_Fetch:
  "Fetch demoFs (tc_processor demoClient_tp) ''v1.0.0'' []
     = ([EvStat demoOverridePath, EvReadFile demoOverridePath],
        Inr \<lparr> Variables = [], TargetNamespace = [], Objs = [],
              RawYaml = ''name: ${CLUSTER_NAME}'' \<rparr>)"
  "Fetch demoFs (tc_processor demoListClient_tp) ''v1.0.0'' []
     = ([EvStat demoOverridePath, EvReadFile demoOverridePath],
        Inr \<lparr> Variables = [], TargetNamespace = [], Objs = [],
              RawYaml = ''name: ${CLUSTER_NAME}'' \<rparr>)"
  by (simp_all add: Fetch_def demo_fields demo_readArtifact)

lemma demo_Get_tp:
  "templateClient_Get_tp demoFs demoCollaborators demoClient_tp ''v1.0.0'' [] ''target''
     = ([EvStat demoOverridePath, EvReadFile demoOverridePath,
         EvGetVariables, EvProcess, EvToUnstructured, EvFixTargetNamespace],
        Inr (demoRendered \<lparr> Variables := [''CLUSTER_NAME''],
                            RawYaml := ''name: ${CLUSTER_NAME}'' \<rparr>))"
  by (simp add: templateClient_Get_tp_def demo_Fetch GetVariables_tp_def ProcessYAML_def
        demo_fields demo_inspectVariables demo_replaceVariables demo_ToUnstructured
        demo_fixTargetNamespace demoRendered_def)

lemma demo_Get_list:
  "ns \<noteq> [] \<Longrightarrow>
   templateClient_Get demoFs demoCollaborators demoListClient ''v1.0.0'' [] ns
     = ([EvStat demoOverridePath, EvReadFile demoOverridePath, EvGetVariables],
        Inr \<lparr> Variables = [''CLUSTER_NAME''], TargetNamespace = [], Objs = [], RawYaml = [] \<rparr>)"
  by (simp add: templateClient_Get_def renderArtifact_def demo_ArtifactName demo_fields
        demo_readArtifact GetVariables_def demo_inspectVariables)

section \<open>Properties of the override resolver\<close>

lemma getLocalOverride_result:
  "snd (getLocalOverride fs prov version path) =
     (case Stat fs (overridePath fs prov version path) of
        None \<Rightarrow>
          (case ReadFile fs (overridePath fs prov version path) of
             Inl err \<Rightarrow>
               Inl (Wrapf err ''failed to read local override for %s/%s/%s''
                      [ManifestLabel prov, version, path])
           | Inr content \<Rightarrow> Inr (Some content))
      | Some err \<Rightarrow> if os_IsNotExist err then Inr None else Inl err)"
  by (simp add: getLocalOverride_def Let_def split: option.splits sum.splits)

text \<open>
  Claim C6. The resolver answers "absent" (nil content, nil error) exactly when
  \<^verbatim>\<open>os.Stat\<close> of the override path reports that the file does not exist. Any
  other error of \<^verbatim>\<open>os.Stat\<close> is returned as it is, and an error of
  \<^verbatim>\<open>ioutil.ReadFile\<close> is returned wrapped; neither is turned into "absent".
\<close>

theorem getLocalOverride_absent_iff_not_exist:
  "(snd (getLocalOverride fs prov version path) = Inr None
      \<longleftrightarrow> (\<exists>e. Stat fs (overridePath fs prov version path) = Some e \<and> os_IsNotExist e))
   \<and> (\<forall>e. Stat fs (overridePath fs prov version path) = Some e \<and> \<not> os_IsNotExist e
          \<longrightarrow> snd (getLocalOverride fs prov version path) = Inl e)
   \<and> (\<forall>e. Stat fs (overridePath fs prov version path) = None
            \<and> ReadFile fs (overridePath fs prov version path) = Inl e
          \<longrightarrow> snd (getLocalOverride fs prov version path) =
                Inl (Wrapf e ''failed to read local override for %s/%s/%s''
                       [ManifestLabel prov, version, path]))"
  by (auto simp: getLocalOverride_result split: option.splits sum.splits)

theorem getLocalOverride_absent_iff_not_exist_witness:
  "Stat demoFs (overridePath demoFs demoProvider ''v2.0.0'' ''cluster-template.yaml'')
     = Some (PathError ''stat''
         ''/home/dev/.cluster-api/overrides/infrastructure-aws/v2.0.0/cluster-template.yaml'' ENOENT)
   \<and> snd (getLocalOverride demoFs demoProvider ''v2.0.0'' ''cluster-template.yaml'') = Inr None
   \<and> Stat demoFs (overridePath demoFs demoProvider ''v0.9.0'' ''cluster-template.yaml'')
     = Some (PathError ''stat''
         ''/home/dev/.cluster-api/overrides/infrastructure-aws/v0.9.0/cluster-template.yaml'' EACCES)
   \<and> snd (getLocalOverride demoFs demoProvider ''v0.9.0'' ''cluster-template.yaml'')
     = Inl (PathError ''stat''
         ''/home/dev/.cluster-api/overrides/infrastructure-aws/v0.9.0/cluster-template.yaml'' EACCES)"
  using getLocalOverride_absent_iff_not_exist
          [of demoFs demoProvider "''v2.0.0''" "''cluster-template.yaml''"]
        getLocalOverride_absent_iff_not_exist
          [of demoFs demoProvider "''v0.9.0''" "''cluster-template.yaml''"]
  by (simp add: overridePath_def demoFs_def demoProvider_def overrideFolder_def)

section \<open>Properties of the substitution engine\<close>

lemma placeholderAt_text:
  assumes "placeholderAt prev cs = Some (seg, rest)"
  shows "segText seg @ rest = CHR ''$'' # cs"
proof (cases cs)
  case Nil
  with assms show ?thesis by (simp add: placeholderAt_def)
next
  case (Cons d ds)
  show ?thesis
  proof (cases "d = CHR ''{''")
    case True
    with assms Cons have v: "take 1 (dropWhile isIdentChar ds) = ''}''"
      and s: "seg = Placeholder (takeWhile isIdentChar ds) (''${'' @ takeWhile isIdentChar ds @ ''}'')"
      and r: "rest = drop 1 (dropWhile isIdentChar ds)"
      by (auto simp: placeholderAt_def Let_def split: if_splits)
    have "take 1 (dropWhile isIdentChar ds) @ drop 1 (dropWhile isIdentChar ds)
            = dropWhile isIdentChar ds"
      by (rule append_take_drop_id)
    with v r have "''}'' @ rest = dropWhile isIdentChar ds" by simp
    then have "takeWhile isIdentChar ds @ ''}'' @ rest = ds"
      by (metis takeWhile_dropWhile_id)
    with s True Cons show ?thesis by simp
  next
    case False
    with assms Cons have "seg = Placeholder (takeWhile isIdentChar cs) (CHR ''$'' # takeWhile isIdentChar cs)"
      and "rest = dropWhile isIdentChar cs"
      by (auto simp: placeholderAt_def Let_def split: if_splits)
    then show ?thesis by simp
  qed
qed

lemma scan_flatten: "concat (map segText (scan prev s)) = s"
proof (induction prev s rule: scan.induct)
  case (1 prev)
  then show ?case by simp
next
  case (2 prev c cs)
  show ?case
  proof (cases "c = CHR ''$''")
    case False
    with 2 show ?thesis by simp
  next
    case True
    show ?thesis
    proof (cases "placeholderAt prev cs")
      case None
      with True 2 show ?thesis by simp
    next
      case (Some a)
      obtain seg rest where a: "a = (seg, rest)" by (cases a)
      from 2(2) [OF True Some a [symmetric]]
      have "concat (map segText (scan (isIdentChar (last (segText seg))) rest)) = rest" .
      moreover from Some a have "segText seg @ rest = CHR ''$'' # cs"
        by (simp add: placeholderAt_text)
      ultimately show ?thesis using True Some a by simp
    qed
  qed
qed

lemma fold_insert_new_set:
  "set (fold (\<lambda>n acc. if n \<in> set acc then acc else acc @ [n]) ns acc) = set acc \<union> set ns"
  by (induction ns arbitrary: acc) auto

lemma inspectVariables_set: "set (inspectVariables raw) = set (placeholderNames raw)"
  by (simp add: inspectVariables_def fold_insert_new_set)

lemma substituteSegment_unchanged:
  "\<forall>k \<in> set variables. k \<notin> set (concat (map (\<lambda>seg. case seg of Text _ \<Rightarrow> [] | Placeholder n _ \<Rightarrow> [n]) segs))
   \<Longrightarrow> concat (map (substituteSegment variables src) segs) = concat (map segText segs)"
proof (induction segs)
  case Nil
  then show ?case by simp
next
  case (Cons seg segs)
  then show ?case by (cases seg) (auto simp: substituteSegment_def)
qed

lemma filter_missing_hd:
  "filter (\<lambda>key. isl (src key)) variables = key # others \<Longrightarrow> key \<in> set variables \<and> isl (src key)"
proof -
  assume a: "filter (\<lambda>key. isl (src key)) variables = key # others"
  have "key \<in> set (filter (\<lambda>key. isl (src key)) variables)" by (simp add: a)
  then show ?thesis by simp
qed

lemma replaceVariables_missing:
  assumes "\<exists>k \<in> set variables. isl (src k)"
  shows "\<exists>k \<in> set variables. isl (src k)
           \<and> replaceVariables yaml variables src False = Inl (MissingVariable k)"
proof (cases "filter (\<lambda>key. isl (src key)) variables")
  case Nil
  with assms show ?thesis by (auto simp: filter_empty_conv)
next
  case (Cons key others)
  then have "key \<in> set variables \<and> isl (src key)" by (rule filter_missing_hd)
  with Cons show ?thesis by (auto simp: replaceVariables_def)
qed

lemma replaceVariables_skip:
  "replaceVariables yaml variables src True
     = Inr (concat (map (substituteSegment variables src) (scan False yaml)))"
  by (simp add: replaceVariables_def split: list.splits)

lemma replaceVariables_ok_found:
  "replaceVariables yaml variables src False = Inr out \<Longrightarrow> \<forall>k \<in> set variables. \<not> isl (src k)"
  by (auto simp: replaceVariables_def filter_empty_conv split: list.splits)

lemma replaceVariables_unchanged:
  assumes "\<forall>k \<in> set variables. \<not> isl (src k)"
    and "\<forall>k \<in> set variables. k \<notin> set (inspectVariables out)"
  shows "replaceVariables out variables src skip = Inr out"
proof -
  from assms(1) have "filter (\<lambda>key. isl (src key)) variables = []"
    by (simp add: filter_empty_conv)
  moreover from assms(2)
  have "concat (map (substituteSegment variables src) (scan False out)) = out"
    using substituteSegment_unchanged [of variables "scan False out" src]
    by (simp add: inspectVariables_set placeholderNames_def scan_flatten)
  ultimately show ?thesis by (simp add: replaceVariables_def)
qed

text \<open>Every piece of the output that stands for a placeholder of an absent variable
  is the placeholder as it was written.\<close>

lemma substituteSegment_pieces:
  "list_all2 (\<lambda>seg piece. case seg of
                  Text c \<Rightarrow> piece = [c]
                | Placeholder n t \<Rightarrow> isl (src n) \<longrightarrow> piece = t)
     segs (map (substituteSegment variables src) segs)"
proof (induction segs)
  case Nil
  then show ?case by simp
next
  case (Cons seg segs)
  then show ?case by (cases seg) (auto simp: substituteSegment_def split: sum.splits)
qed

lemma substituteSegment_all_absent:
  "\<forall>n \<in> set (concat (map (\<lambda>seg. case seg of Text _ \<Rightarrow> [] | Placeholder n _ \<Rightarrow> [n]) segs)). isl (src n)
   \<Longrightarrow> concat (map (substituteSegment variables src) segs) = concat (map segText segs)"
proof (induction segs)
  case Nil
  then show ?case by simp
next
  case (Cons seg segs)
  then show ?case by (cases seg) (auto simp: substituteSegment_def split: sum.splits)
qed

lemma Process_eq:
  "Process tp raw src = replaceVariables raw (inspectVariables raw) src (skipVariables tp)"
  by (simp add: Process_def Let_def split: sum.splits)

lemma ProcessYAML_eq:
  "ProcessYAML tp t
     = replaceVariables (RawYaml t) (Variables t) (tp_variablesGetter tp) (tp_skipVariables tp)"
  by (simp add: ProcessYAML_def split: sum.splits)

text \<open>
  Claim C3. When a discovered variable is absent from the source and variables are not
  skipped, substitution fails with \<open>MissingVariable\<close> of an absent discovered variable
  and returns no output. When variables are skipped, substitution succeeds, and its
  output is the input cut at its placeholders with every placeholder of an absent
  variable left as it was written; when no discovered variable is in the source, the
  output is the input. Stated for \<^verbatim>\<open>defaultYamlProcessor.Process\<close> and for
  \<^verbatim>\<open>defaultTemplateProcessor.ProcessYAML\<close>.
\<close>

theorem Process_missing_variable:
  "(\<not> skipVariables tp \<and> (\<exists>v \<in> set (inspectVariables raw). isl (src v))
      \<longrightarrow> (\<exists>v \<in> set (inspectVariables raw). isl (src v)
             \<and> Process tp raw src = Inl (MissingVariable v)))
   \<and> (skipVariables tp
      \<longrightarrow> (\<exists>pieces. Process tp raw src = Inr (concat pieces)
             \<and> list_all2 (\<lambda>seg piece. case seg of
                              Text c \<Rightarrow> piece = [c]
                            | Placeholder n t \<Rightarrow> isl (src n) \<longrightarrow> piece = t)
                  (scan False raw) pieces)
          \<and> ((\<forall>v \<in> set (inspectVariables raw). isl (src v)) \<longrightarrow> Process tp raw src = Inr raw))
   \<and> (\<not> tp_skipVariables tp' \<and> (\<exists>v \<in> set (Variables t). isl (tp_variablesGetter tp' v))
      \<longrightarrow> (\<exists>v \<in> set (Variables t). isl (tp_variablesGetter tp' v)
             \<and> ProcessYAML tp' t = Inl (MissingVariable v)))
   \<and> (tp_skipVariables tp'
      \<longrightarrow> (\<exists>pieces. ProcessYAML tp' t = Inr (concat pieces)
             \<and> list_all2 (\<lambda>seg piece. case seg of
                              Text c \<Rightarrow> piece = [c]
                            | Placeholder n t' \<Rightarrow> isl (tp_variablesGetter tp' n) \<longrightarrow> piece = t')
                  (scan False (RawYaml t)) pieces))"
proof (intro conjI impI)
  assume "\<not> skipVariables tp \<and> (\<exists>v \<in> set (inspectVariables raw). isl (src v))"
  then show "\<exists>v \<in> set (inspectVariables raw). isl (src v)
                \<and> Process tp raw src = Inl (MissingVariable v)"
    using replaceVariables_missing [of "inspectVariables raw" src raw]
    by (simp add: Process_eq)
next
  assume "skipVariables tp"
  then have "Process tp raw src
               = Inr (concat (map (substituteSegment (inspectVariables raw) src) (scan False raw)))"
    by (simp add: Process_eq replaceVariables_skip)
  then show "\<exists>pieces. Process tp raw src = Inr (concat pieces)
             \<and> list_all2 (\<lambda>seg piece. case seg of
                              Text c \<Rightarrow> piece = [c]
                            | Placeholder n t \<Rightarrow> isl (src n) \<longrightarrow> piece = t)
                  (scan False raw) pieces"
    using substituteSegment_pieces [of src "scan False raw" "inspectVariables raw"] by blast
next
  assume "skipVariables tp" and "\<forall>v \<in> set (inspectVariables raw). isl (src v)"
  then show "Process tp raw src = Inr raw"
    using substituteSegment_all_absent [of "scan False raw" src "inspectVariables raw"]
    by (simp add: Process_eq replaceVariables_skip inspectVariables_set placeholderNames_def
          scan_flatten)
next
  assume "\<not> tp_skipVariables tp' \<and> (\<exists>v \<in> set (Variables t). isl (tp_variablesGetter tp' v))"
  then show "\<exists>v \<in> set (Variables t). isl (tp_variablesGetter tp' v)
                \<and> ProcessYAML tp' t = Inl (MissingVariable v)"
    using replaceVariables_missing [of "Variables t" "tp_variablesGetter tp'" "RawYaml t"]
    by (simp add: ProcessYAML_eq)
next
  assume "tp_skipVariables tp'"
  then have "ProcessYAML tp' t
               = Inr (concat (map (substituteSegment (Variables t) (tp_variablesGetter tp'))
                                (scan False (RawYaml t))))"
    by (simp add: ProcessYAML_eq replaceVariables_skip)
  then show "\<exists>pieces. ProcessYAML tp' t = Inr (concat pieces)
             \<and> list_all2 (\<lambda>seg piece. case seg of
                              Text c \<Rightarrow> piece = [c]
                            | Placeholder n t' \<Rightarrow> isl (tp_variablesGetter tp' n) \<longrightarrow> piece = t')
                  (scan False (RawYaml t)) pieces"
    using substituteSegment_pieces
            [of "tp_variablesGetter tp'" "scan False (RawYaml t)" "Variables t"]
    by blast
qed

theorem Process_missing_variable_witness:
  "\<not> skipVariables \<lparr> skipVariables = False \<rparr>
   \<and> ''IMAGE'' \<in> set (inspectVariables ''img: ${IMAGE}'')
   \<and> isl (demoVariables ''IMAGE'')
   \<and> Process \<lparr> skipVariables = False \<rparr> ''img: ${IMAGE}'' demoVariables
       = Inl (MissingVariable ''IMAGE'')
   \<and> Process \<lparr> skipVariables = True \<rparr> ''img: ${IMAGE}'' demoVariables = Inr ''img: ${IMAGE}''
   \<and> \<not> tp_skipVariables (tc_processor demoClient_tp)
   \<and> ProcessYAML (tc_processor demoClient_tp)
         \<lparr> Variables = [''IMAGE''], TargetNamespace = [], Objs = [],
           RawYaml = ''img: ${IMAGE}'' \<rparr>
       = Inl (MissingVariable ''IMAGE'')
   \<and> tp_skipVariables (tc_processor demoListClient_tp)
   \<and> ProcessYAML (tc_processor demoListClient_tp)
         \<lparr> Variables = [''IMAGE''], TargetNamespace = [], Objs = [],
           RawYaml = ''img: ${IMAGE}'' \<rparr>
       = Inr ''img: ${IMAGE}''"
proof -
  have y: "ProcessYAML (tc_processor demoListClient_tp)
         \<lparr> Variables = [''IMAGE''], TargetNamespace = [], Objs = [],
           RawYaml = ''img: ${IMAGE}'' \<rparr>
       = Inr ''img: ${IMAGE}''"
    by (simp add: ProcessYAML_def replaceVariables_def substituteSegment_def placeholderAt_def
          validName_def isIdentChar_def isIdentStart_def demoVariables_def demo_fields Let_def)
  show ?thesis
    using Process_missing_variable
            [where tp = "\<lparr> skipVariables = False \<rparr>" and raw = "''img: ${IMAGE}''"
               and src = demoVariables
               and tp' = "tc_processor demoClient_tp"
               and t = "\<lparr> Variables = [''IMAGE''], TargetNamespace = [], Objs = [],
                          RawYaml = ''img: ${IMAGE}'' \<rparr>"]
          Process_missing_variable
            [where tp = "\<lparr> skipVariables = True \<rparr>" and raw = "''img: ${IMAGE}''"
               and src = demoVariables
               and tp' = "tc_processor demoListClient_tp"
               and t = "\<lparr> Variables = [''IMAGE''], TargetNamespace = [], Objs = [],
                          RawYaml = ''img: ${IMAGE}'' \<rparr>"]
          y
    by (simp add: demo_inspectVariables demoVariables_def demo_fields)
qed

text \<open>
  Claim C8. Substitution is idempotent on resolved text: when a first strict
  substitution succeeds and its output holds no placeholder of the listed variables,
  substituting that output again with the same variables and source returns it
  unchanged; likewise \<^verbatim>\<open>Process\<close> applied to an output without placeholders.
\<close>

theorem Process_idempotent:
  "(replaceVariables raw variables src False = Inr out
       \<and> (\<forall>v \<in> set variables. v \<notin> set (inspectVariables out))
      \<longrightarrow> replaceVariables out variables src False = Inr out)
   \<and> (\<not> skipVariables tp \<and> Process tp raw src = Inr out \<and> inspectVariables out = []
      \<longrightarrow> Process tp out src = Inr out)"
proof (intro conjI impI)
  assume a: "replaceVariables raw variables src False = Inr out
       \<and> (\<forall>v \<in> set variables. v \<notin> set (inspectVariables out))"
  then have "\<forall>k \<in> set variables. \<not> isl (src k)"
    using replaceVariables_ok_found [of raw variables src out] by simp
  with a show "replaceVariables out variables src False = Inr out"
    using replaceVariables_unchanged [of variables src out False] by simp
next
  assume "\<not> skipVariables tp \<and> Process tp raw src = Inr out \<and> inspectVariables out = []"
  then show "Process tp out src = Inr out"
    using replaceVariables_unchanged [of "[]" src out "skipVariables tp"]
    by (simp add: Process_eq)
qed

theorem Process_idempotent_witness:
  "replaceVariables ''name: ${CLUSTER_NAME}'' [''CLUSTER_NAME''] demoVariables False
     = Inr ''name: foo''
   \<and> ''CLUSTER_NAME'' \<notin> set (inspectVariables ''name: foo'')
   \<and> replaceVariables ''name: foo'' [''CLUSTER_NAME''] demoVariables False = Inr ''name: foo''
   \<and> Process \<lparr> skipVariables = False \<rparr> ''name: ${CLUSTER_NAME}'' demoVariables
       = Inr ''name: foo''
   \<and> inspectVariables ''name: foo'' = []
   \<and> Process \<lparr> skipVariables = False \<rparr> ''name: foo'' demoVariables = Inr ''name: foo''"
  using Process_idempotent
          [where raw = "''name: ${CLUSTER_NAME}''" and variables = "[''CLUSTER_NAME'']"
             and src = demoVariables and out = "''name: foo''"
             and tp = "\<lparr> skipVariables = False \<rparr>"]
  by (simp add: Process_def demo_inspectVariables demo_replaceVariables)

section \<open>Properties of the fetch\<close>

lemma getLocalOverride_events:
  "set (fst (getLocalOverride fs prov version name))
     \<subseteq> {EvStat (overridePath fs prov version name), EvReadFile (overridePath fs prov version name)}"
  by (auto simp: getLocalOverride_def Let_def split: option.splits sum.splits if_splits)





lemma readArtifact_events:
  "set (fst (readArtifact fs prov repo version name))
     \<subseteq> {EvStat (overridePath fs prov version name), EvReadFile (overridePath fs prov version name),
         EvGetFile version name}"
  using getLocalOverride_events [of fs prov version name]
  by (cases "getLocalOverride fs prov version name")
     (auto simp: readArtifact_def split: sum.splits option.splits)

lemma Fetch_events:
  "set (fst (Fetch fs tp version flavor)) \<subseteq> {e. \<exists>p v n. e = EvStat p \<or> e = EvReadFile p \<or> e = EvGetFile v n}"
proof -
  obtain name where n: "name = ''cluster-template'' @ (if flavor \<noteq> [] then ''-'' @ flavor else []) @ ''.yaml''"
    by simp
  obtain tr res where r: "readArtifact fs (tp_provider tp) (tp_repository tp) version name = (tr, res)"
    by (cases "readArtifact fs (tp_provider tp) (tp_repository tp) version name")
  with readArtifact_events [of fs "tp_provider tp" "tp_repository tp" version name]
  have "set tr \<subseteq> {e. \<exists>p v n. e = EvStat p \<or> e = EvReadFile p \<or> e = EvGetFile v n}"
    by auto
  moreover have "fst (Fetch fs tp version flavor) = tr"
    using r n by (cases res) (auto simp: Fetch_def Let_def)
  ultimately show ?thesis by simp
qed






text \<open>
  Claim C5. With an empty target namespace \<^verbatim>\<open>templateClient.Get\<close> fails with the
  error "invalid arguments: please provide a targetNamespace" and has called none of
  its collaborators: nothing is fetched, substituted or converted. This holds for
  every client, version and flavor, and for both template clients.
\<close>

theorem templateClient_Get_empty_namespace:
  "templateClient_Get fs cv c version flavor []
     = ([], Inl (Errorf ''invalid arguments: please provide a targetNamespace'' []))
   \<and> templateClient_Get_tp fs cv c' version flavor []
     = ([], Inl (Errorf ''invalid arguments: please provide a targetNamespace'' []))"
  by (simp add: templateClient_Get_def templateClient_Get_tp_def)

theorem templateClient_Get_empty_namespace_witness:
  "templateClient_Get demoFs demoCollaborators demoClient ''v1.0.0'' [] []
     = ([], Inl (Errorf ''invalid arguments: please provide a targetNamespace'' []))
   \<and> templateClient_Get_tp demoFs demoCollaborators demoClient_tp ''v1.0.0'' [] []
     = ([], Inl (Errorf ''invalid arguments: please provide a targetNamespace'' []))"
  using templateClient_Get_empty_namespace
          [of demoFs demoCollaborators demoClient "''v1.0.0''" "[]" demoClient_tp]
  by simp

section \<open>List variables only\<close>

lemma templateClient_Get_reaches_discovery:
  assumes "listVariablesOnly c"
    and "EvGetVariables \<in> set (fst (templateClient_Get fs cv c version flavor ns))"
  shows "\<exists>tr raw vars.
           readArtifact fs (provider c) (repository c) version
             (ArtifactName (processor c) version flavor) = (tr, Inr raw)
           \<and> GetVariables (processor c) raw = Inr vars
           \<and> templateClient_Get fs cv c version flavor ns
               = (tr @ [EvGetVariables],
                  Inr \<lparr> Variables = vars, TargetNamespace = [], Objs = [], RawYaml = [] \<rparr>)"
proof -
  from assms(2) have ns: "ns \<noteq> []"
    by (auto simp: templateClient_Get_def)
  obtain tr res where r: "readArtifact fs (provider c) (repository c) version
             (ArtifactName (processor c) version flavor) = (tr, res)"
    by (cases "readArtifact fs (provider c) (repository c) version
             (ArtifactName (processor c) version flavor)")
  have tr: "EvGetVariables \<notin> set tr"
    using readArtifact_events [of fs "provider c" "repository c" version
            "ArtifactName (processor c) version flavor"] r
    by auto
  show ?thesis
  proof (cases res)
    case (Inl err)
    with ns r have "fst (templateClient_Get fs cv c version flavor ns) = tr"
      by (simp add: templateClient_Get_def Let_def)
    with assms(2) tr show ?thesis by simp
  next
    case (Inr raw)
    with ns r assms(1) show ?thesis
      by (simp add: templateClient_Get_def Let_def renderArtifact_def GetVariables_def)
  qed
qed

lemma templateClient_Get_tp_reaches_discovery:
  assumes "tc_listVariablesOnly c"
    and "EvGetVariables \<in> set (fst (templateClient_Get_tp fs cv c version flavor ns))"
  shows "\<exists>tr t0.
           Fetch fs (tc_processor c) version flavor = (tr, Inr t0)
           \<and> templateClient_Get_tp fs cv c version flavor ns
               = (tr @ [EvGetVariables],
                  Inr \<lparr> Variables = inspectVariables (RawYaml t0), TargetNamespace = [],
                        Objs = [], RawYaml = RawYaml t0 \<rparr>)"
proof -
  from assms(2) have ns: "ns \<noteq> []"
    by (auto simp: templateClient_Get_tp_def)
  obtain tr res where r: "Fetch fs (tc_processor c) version flavor = (tr, res)"
    by (cases "Fetch fs (tc_processor c) version flavor")
  have tr: "EvGetVariables \<notin> set tr"
    using Fetch_events [of fs "tc_processor c" version flavor] r by auto
  show ?thesis
  proof (cases res)
    case (Inl err)
    with ns r have "fst (templateClient_Get_tp fs cv c version flavor ns) = tr"
      by (simp add: templateClient_Get_tp_def)
    with assms(2) tr show ?thesis by simp
  next
    case (Inr t0)
    with r have "Objs t0 = []" and "TargetNamespace t0 = []" and "Variables t0 = []"
      by (auto simp: Fetch_def Let_def split: prod.splits sum.splits)
    with Inr ns r assms(1) show ?thesis
      by (simp add: templateClient_Get_tp_def GetVariables_tp_def)
  qed
qed

lemma templateClient_Get_list_mode_events:
  assumes "listVariablesOnly c"
  shows "set (fst (templateClient_Get fs cv c version flavor ns))
           \<subseteq> {e. \<exists>p v n. e = EvStat p \<or> e = EvReadFile p \<or> e = EvGetFile v n}
              \<union> {EvGetVariables}"
proof (cases "ns = []")
  case True
  then show ?thesis by (simp add: templateClient_Get_def)
next
  case False
  obtain tr res where r: "readArtifact fs (provider c) (repository c) version
             (ArtifactName (processor c) version flavor) = (tr, res)"
    by (cases "readArtifact fs (provider c) (repository c) version
             (ArtifactName (processor c) version flavor)")
  have tr: "set tr \<subseteq> {e. \<exists>p v n. e = EvStat p \<or> e = EvReadFile p \<or> e = EvGetFile v n}"
    using readArtifact_events [of fs "provider c" "repository c" version
            "ArtifactName (processor c) version flavor"] r
    by auto
  show ?thesis
  proof (cases res)
    case (Inl err)
    with False r tr show ?thesis
      by (auto simp: templateClient_Get_def Let_def)
  next
    case (Inr raw)
    with False r tr assms show ?thesis
      by (auto simp: templateClient_Get_def Let_def renderArtifact_def GetVariables_def)
  qed
qed

lemma templateClient_Get_tp_list_mode_events:
  assumes "tc_listVariablesOnly c"
  shows "set (fst (templateClient_Get_tp fs cv c version flavor ns))
           \<subseteq> {e. \<exists>p v n. e = EvStat p \<or> e = EvReadFile p \<or> e = EvGetFile v n}
              \<union> {EvGetVariables}"
proof (cases "ns = []")
  case True
  then show ?thesis by (simp add: templateClient_Get_tp_def)
next
  case False
  obtain tr res where r: "Fetch fs (tc_processor c) version flavor = (tr, res)"
    by (cases "Fetch fs (tc_processor c) version flavor")
  have tr: "set tr \<subseteq> {e. \<exists>p v n. e = EvStat p \<or> e = EvReadFile p \<or> e = EvGetFile v n}"
    using Fetch_events [of fs "tc_processor c" version flavor] r by auto
  show ?thesis
  proof (cases res)
    case (Inl err)
    with False r tr show ?thesis
      by (auto simp: templateClient_Get_tp_def)
  next
    case (Inr t0)
    with False r tr assms show ?thesis
      by (auto simp: templateClient_Get_tp_def GetVariables_tp_def)
  qed
qed

lemma demo_Get_tp_list:
  "templateClient_Get_tp demoFs demoCollaborators demoListClient_tp ''v1.0.0'' [] ''target''
     = ([EvStat demoOverridePath, EvReadFile demoOverridePath, EvGetVariables],
        Inr \<lparr> Variables = [''CLUSTER_NAME''], TargetNamespace = [], Objs = [],
              RawYaml = ''name: ${CLUSTER_NAME}'' \<rparr>)"
  by (simp add: templateClient_Get_tp_def demo_Fetch GetVariables_tp_def demo_fields
        demo_inspectVariables)

text \<open>
  Claim C7. In "list variables only" mode, every run of \<^verbatim>\<open>templateClient.Get\<close>
  that reaches the discovery of the variables (the artifact has been read, which
  takes a target namespace that is not empty) returns successfully, with a template
  whose variables are the discovered ones, whose object list is empty and whose
  target namespace is unset; and no run in that mode substitutes, converts or fixes
  namespaces. Stated for both template clients.
\<close>

theorem templateClient_Get_list_variables_only:
  "(listVariablesOnly c
      \<and> EvGetVariables \<in> set (fst (templateClient_Get fs cv c version flavor ns))
      \<longrightarrow> (\<exists>tr raw vars.
             readArtifact fs (provider c) (repository c) version
               (ArtifactName (processor c) version flavor) = (tr, Inr raw)
             \<and> GetVariables (processor c) raw = Inr vars
             \<and> templateClient_Get fs cv c version flavor ns
                 = (tr @ [EvGetVariables],
                    Inr \<lparr> Variables = vars, TargetNamespace = [], Objs = [], RawYaml = [] \<rparr>)))
   \<and> (listVariablesOnly c \<and> ns \<noteq> []
      \<and> readArtifact fs (provider c) (repository c) version
            (ArtifactName (processor c) version flavor) = (tr, Inr raw)
      \<and> GetVariables (processor c) raw = Inr vars
      \<longrightarrow> templateClient_Get fs cv c version flavor ns
            = (tr @ [EvGetVariables],
               Inr \<lparr> Variables = vars, TargetNamespace = [], Objs = [], RawYaml = [] \<rparr>))
   \<and> (listVariablesOnly c
      \<longrightarrow> EvProcess \<notin> set (fst (templateClient_Get fs cv c version flavor ns))
          \<and> EvToUnstructured \<notin> set (fst (templateClient_Get fs cv c version flavor ns))
          \<and> EvFixTargetNamespace \<notin> set (fst (templateClient_Get fs cv c version flavor ns)))
   \<and> (tc_listVariablesOnly c'
      \<and> EvGetVariables \<in> set (fst (templateClient_Get_tp fs cv c' version flavor ns))
      \<longrightarrow> (\<exists>tr t0.
             Fetch fs (tc_processor c') version flavor = (tr, Inr t0)
             \<and> templateClient_Get_tp fs cv c' version flavor ns
                 = (tr @ [EvGetVariables],
                    Inr \<lparr> Variables = inspectVariables (RawYaml t0), TargetNamespace = [],
                          Objs = [], RawYaml = RawYaml t0 \<rparr>)))
   \<and> (tc_listVariablesOnly c' \<and> ns \<noteq> []
      \<and> Fetch fs (tc_processor c') version flavor = (tr', Inr t0)
      \<longrightarrow> templateClient_Get_tp fs cv c' version flavor ns
            = (tr' @ [EvGetVariables],
               Inr \<lparr> Variables = inspectVariables (RawYaml t0), TargetNamespace = [],
                     Objs = [], RawYaml = RawYaml t0 \<rparr>))
   \<and> (tc_listVariablesOnly c'
      \<longrightarrow> EvProcess \<notin> set (fst (templateClient_Get_tp fs cv c' version flavor ns))
          \<and> EvToUnstructured \<notin> set (fst (templateClient_Get_tp fs cv c' version flavor ns))
          \<and> EvFixTargetNamespace \<notin> set (fst (templateClient_Get_tp fs cv c' version flavor ns)))"
proof (intro conjI impI)
  assume "listVariablesOnly c
      \<and> EvGetVariables \<in> set (fst (templateClient_Get fs cv c version flavor ns))"
  then show "\<exists>tr raw vars.
             readArtifact fs (provider c) (repository c) version
               (ArtifactName (processor c) version flavor) = (tr, Inr raw)
             \<and> GetVariables (processor c) raw = Inr vars
             \<and> templateClient_Get fs cv c version flavor ns
                 = (tr @ [EvGetVariables],
                    Inr \<lparr> Variables = vars, TargetNamespace = [], Objs = [], RawYaml = [] \<rparr>)"
    using templateClient_Get_reaches_discovery [of c fs cv version flavor ns] by simp
next
  assume "listVariablesOnly c \<and> ns \<noteq> []
      \<and> readArtifact fs (provider c) (repository c) version
            (ArtifactName (processor c) version flavor) = (tr, Inr raw)
      \<and> GetVariables (processor c) raw = Inr vars"
  then show "templateClient_Get fs cv c version flavor ns
            = (tr @ [EvGetVariables],
               Inr \<lparr> Variables = vars, TargetNamespace = [], Objs = [], RawYaml = [] \<rparr>)"
    by (simp add: templateClient_Get_def Let_def renderArtifact_def)
next
  assume a: "listVariablesOnly c"
  from templateClient_Get_list_mode_events [OF a, of fs cv version flavor ns]
  show "EvProcess \<notin> set (fst (templateClient_Get fs cv c version flavor ns))"
    and "EvToUnstructured \<notin> set (fst (templateClient_Get fs cv c version flavor ns))"
    and "EvFixTargetNamespace \<notin> set (fst (templateClient_Get fs cv c version flavor ns))"
    by auto
next
  assume "tc_listVariablesOnly c'
      \<and> EvGetVariables \<in> set (fst (templateClient_Get_tp fs cv c' version flavor ns))"
  then show "\<exists>tr t0.
             Fetch fs (tc_processor c') version flavor = (tr, Inr t0)
             \<and> templateClient_Get_tp fs cv c' version flavor ns
                 = (tr @ [EvGetVariables],
                    Inr \<lparr> Variables = inspectVariables (RawYaml t0), TargetNamespace = [],
                          Objs = [], RawYaml = RawYaml t0 \<rparr>)"
    using templateClient_Get_tp_reaches_discovery [of c' fs cv version flavor ns] by simp
next
  assume a: "tc_listVariablesOnly c' \<and> ns \<noteq> []
      \<and> Fetch fs (tc_processor c') version flavor = (tr', Inr t0)"
  then have "Objs t0 = []" and "TargetNamespace t0 = []" and "Variables t0 = []"
    by (auto simp: Fetch_def Let_def split: prod.splits sum.splits)
  with a show "templateClient_Get_tp fs cv c' version flavor ns
            = (tr' @ [EvGetVariables],
               Inr \<lparr> Variables = inspectVariables (RawYaml t0), TargetNamespace = [],
                     Objs = [], RawYaml = RawYaml t0 \<rparr>)"
    by (simp add: templateClient_Get_tp_def GetVariables_tp_def)
next
  assume a: "tc_listVariablesOnly c'"
  from templateClient_Get_tp_list_mode_events [OF a, of fs cv version flavor ns]
  show "EvProcess \<notin> set (fst (templateClient_Get_tp fs cv c' version flavor ns))"
    and "EvToUnstructured \<notin> set (fst (templateClient_Get_tp fs cv c' version flavor ns))"
    and "EvFixTargetNamespace \<notin> set (fst (templateClient_Get_tp fs cv c' version flavor ns))"
    by auto
qed

theorem templateClient_Get_list_variables_only_witness:
  "listVariablesOnly demoListClient
   \<and> EvGetVariables
       \<in> set (fst (templateClient_Get demoFs demoCollaborators demoListClient ''v1.0.0'' []
                    ''target''))
   \<and> readArtifact demoFs (provider demoListClient) (repository demoListClient) ''v1.0.0''
        (ArtifactName (processor demoListClient) ''v1.0.0'' [])
       = ([EvStat demoOverridePath, EvReadFile demoOverridePath], Inr ''name: ${CLUSTER_NAME}'')
   \<and> GetVariables (processor demoListClient) ''name: ${CLUSTER_NAME}'' = Inr [''CLUSTER_NAME'']
   \<and> templateClient_Get demoFs demoCollaborators demoListClient ''v1.0.0'' [] ''target''
       = ([EvStat demoOverridePath, EvReadFile demoOverridePath, EvGetVariables],
          Inr \<lparr> Variables = [''CLUSTER_NAME''], TargetNamespace = [], Objs = [], RawYaml = [] \<rparr>)
   \<and> tc_listVariablesOnly demoListClient_tp
   \<and> EvGetVariables
       \<in> set (fst (templateClient_Get_tp demoFs demoCollaborators demoListClient_tp ''v1.0.0'' []
                    ''target''))
   \<and> Fetch demoFs (tc_processor demoListClient_tp) ''v1.0.0'' []
       = ([EvStat demoOverridePath, EvReadFile demoOverridePath],
          Inr \<lparr> Variables = [], TargetNamespace = [], Objs = [],
                RawYaml = ''name: ${CLUSTER_NAME}'' \<rparr>)
   \<and> templateClient_Get_tp demoFs demoCollaborators demoListClient_tp ''v1.0.0'' [] ''target''
       = ([EvStat demoOverridePath, EvReadFile demoOverridePath, EvGetVariables],
          Inr \<lparr> Variables = [''CLUSTER_NAME''], TargetNamespace = [], Objs = [],
                RawYaml = ''name: ${CLUSTER_NAME}'' \<rparr>)"
  using templateClient_Get_list_variables_only
          [where c = demoListClient and ns = "''target''" and fs = demoFs
             and version = "''v1.0.0''" and flavor = "[]"
             and tr = "[EvStat demoOverridePath, EvReadFile demoOverridePath]"
             and raw = "''name: ${CLUSTER_NAME}''" and vars = "[''CLUSTER_NAME'']"
             and cv = demoCollaborators and c' = demoListClient_tp
             and tr' = "[EvStat demoOverridePath, EvReadFile demoOverridePath]"
             and ?t0.0 = "\<lparr> Variables = [], TargetNamespace = [], Objs = [],
                           RawYaml = ''name: ${CLUSTER_NAME}'' \<rparr>"]
  by (simp add: demo_fields demo_ArtifactName demo_readArtifact GetVariables_def
        demo_inspectVariables demo_Fetch demo_Get_list demo_Get_tp_list)

text \<open>
  Claim C10. The rejection of an empty target namespace applies in "list variables
  only" mode too, although in that mode the value is not used: any two non-empty
  target namespaces give the same run, and the template returned has an empty
  \<^verbatim>\<open>TargetNamespace()\<close> whatever the argument.
\<close>

theorem templateClient_Get_list_mode_namespace:
  "(listVariablesOnly c
      \<longrightarrow> templateClient_Get fs cv c version flavor []
            = ([], Inl (Errorf ''invalid arguments: please provide a targetNamespace'' [])))
   \<and> (listVariablesOnly c \<and> ns \<noteq> [] \<and> ns' \<noteq> []
      \<longrightarrow> templateClient_Get fs cv c version flavor ns
            = templateClient_Get fs cv c version flavor ns')
   \<and> (listVariablesOnly c \<and> snd (templateClient_Get fs cv c version flavor ns) = Inr t
      \<longrightarrow> TargetNamespace t = [])"
proof (intro conjI impI)
  assume "listVariablesOnly c"
  show "templateClient_Get fs cv c version flavor []
            = ([], Inl (Errorf ''invalid arguments: please provide a targetNamespace'' []))"
    by (simp add: templateClient_Get_def)
next
  assume "listVariablesOnly c \<and> ns \<noteq> [] \<and> ns' \<noteq> []"
  then show "templateClient_Get fs cv c version flavor ns
            = templateClient_Get fs cv c version flavor ns'"
    by (simp add: templateClient_Get_def renderArtifact_def GetVariables_def)
next
  assume "listVariablesOnly c \<and> snd (templateClient_Get fs cv c version flavor ns) = Inr t"
  then show "TargetNamespace t = []"
    by (auto simp: templateClient_Get_def renderArtifact_def Let_def GetVariables_def
          split: if_splits prod.splits sum.splits)
qed

theorem templateClient_Get_list_mode_namespace_witness:
  "listVariablesOnly demoListClient
   \<and> templateClient_Get demoFs demoCollaborators demoListClient ''v1.0.0'' [] []
       = ([], Inl (Errorf ''invalid arguments: please provide a targetNamespace'' []))
   \<and> templateClient_Get demoFs demoCollaborators demoListClient ''v1.0.0'' [] ''target''
       = templateClient_Get demoFs demoCollaborators demoListClient ''v1.0.0'' [] ''other''
   \<and> snd (templateClient_Get demoFs demoCollaborators demoListClient ''v1.0.0'' [] ''target'')
       = Inr \<lparr> Variables = [''CLUSTER_NAME''], TargetNamespace = [], Objs = [], RawYaml = [] \<rparr>"
  using templateClient_Get_list_mode_namespace
          [where c = demoListClient and fs = demoFs and cv = demoCollaborators
             and version = "''v1.0.0''" and flavor = "[]" and ns = "''target''"
             and ns' = "''other''"
             and t = "\<lparr> Variables = [''CLUSTER_NAME''], TargetNamespace = [], Objs = [],
                        RawYaml = [] \<rparr>"]
  by (simp add: demo_fields demo_Get_list)

section \<open>Namespace normalization\<close>

lemma fixTargetNamespace_scoped:
  "obj \<in> set (fixTargetNamespace cv objs ns) \<Longrightarrow> namespaceScoped cv (objKind obj) \<Longrightarrow>
   objNamespace obj = ns"
  by (auto simp: fixTargetNamespace_def split: if_splits)

lemma fixTargetNamespace_cluster_scoped:
  "list_all2 (\<lambda>obj obj'. \<not> namespaceScoped cv (objKind obj) \<longrightarrow> obj' = obj)
     objs (fixTargetNamespace cv objs ns)"
  by (simp add: fixTargetNamespace_def list_all2_map2 list_all2_same)

text \<open>
  Claim C1. When \<^verbatim>\<open>templateClient.Get\<close> succeeds outside "list variables only"
  mode, every namespace-scoped object of the returned list has the target namespace
  as its namespace, and the returned list is the converter's list with every
  cluster-scoped object unchanged, position by position. Stated for both template
  clients.
\<close>

theorem templateClient_Get_namespace_invariant:
  "(\<not> listVariablesOnly c \<and> snd (templateClient_Get fs cv c version flavor ns) = Inr t
      \<longrightarrow> TargetNamespace t = ns
          \<and> (\<forall>obj \<in> set (Objs t). namespaceScoped cv (objKind obj) \<longrightarrow> objNamespace obj = ns)
          \<and> (\<exists>raw yaml objs.
                Process (processor c) raw (configVariablesClient c) = Inr yaml
                \<and> ToUnstructured cv yaml = Inr objs
                \<and> list_all2 (\<lambda>obj obj'. \<not> namespaceScoped cv (objKind obj) \<longrightarrow> obj' = obj)
                     objs (Objs t)))
   \<and> (\<not> tc_listVariablesOnly c' \<and> snd (templateClient_Get_tp fs cv c' version flavor ns) = Inr t'
      \<longrightarrow> TargetNamespace t' = ns
          \<and> (\<forall>obj \<in> set (Objs t'). namespaceScoped cv (objKind obj) \<longrightarrow> objNamespace obj = ns)
          \<and> (\<exists>t0 yaml objs.
                ProcessYAML (tc_processor c') t0 = Inr yaml
                \<and> ToUnstructured cv yaml = Inr objs
                \<and> list_all2 (\<lambda>obj obj'. \<not> namespaceScoped cv (objKind obj) \<longrightarrow> obj' = obj)
                     objs (Objs t')))"
proof (intro conjI impI)
  assume a: "\<not> listVariablesOnly c \<and> snd (templateClient_Get fs cv c version flavor ns) = Inr t"
  then obtain raw yaml objs where
      p: "Process (processor c) raw (configVariablesClient c) = Inr yaml"
    and u: "ToUnstructured cv yaml = Inr objs"
    and t: "t = \<lparr> Variables = [], TargetNamespace = ns,
                  Objs = fixTargetNamespace cv objs ns, RawYaml = [] \<rparr>"
    by (auto simp: templateClient_Get_def renderArtifact_def Let_def GetVariables_def
          split: if_splits prod.splits sum.splits)
  from t show "TargetNamespace t = ns" by simp
  from t show "\<forall>obj \<in> set (Objs t). namespaceScoped cv (objKind obj) \<longrightarrow> objNamespace obj = ns"
    by (auto dest: fixTargetNamespace_scoped)
  from p u t show "\<exists>raw yaml objs.
                Process (processor c) raw (configVariablesClient c) = Inr yaml
                \<and> ToUnstructured cv yaml = Inr objs
                \<and> list_all2 (\<lambda>obj obj'. \<not> namespaceScoped cv (objKind obj) \<longrightarrow> obj' = obj)
                     objs (Objs t)"
    using fixTargetNamespace_cluster_scoped [of cv objs ns] by auto
next
  assume a: "\<not> tc_listVariablesOnly c' \<and> snd (templateClient_Get_tp fs cv c' version flavor ns) = Inr t'"
  then obtain t0 yaml objs where
      p: "ProcessYAML (tc_processor c') t0 = Inr yaml"
    and u: "ToUnstructured cv yaml = Inr objs"
    and t: "t' = t0\<lparr>Objs := fixTargetNamespace cv objs ns, TargetNamespace := ns\<rparr>"
    by (auto simp: templateClient_Get_tp_def GetVariables_tp_def
          split: if_splits prod.splits sum.splits)
  from t show "TargetNamespace t' = ns" by simp
  from t show "\<forall>obj \<in> set (Objs t'). namespaceScoped cv (objKind obj) \<longrightarrow> objNamespace obj = ns"
    by (auto dest: fixTargetNamespace_scoped)
  from p u t show "\<exists>t0 yaml objs.
                ProcessYAML (tc_processor c') t0 = Inr yaml
                \<and> ToUnstructured cv yaml = Inr objs
                \<and> list_all2 (\<lambda>obj obj'. \<not> namespaceScoped cv (objKind obj) \<longrightarrow> obj' = obj)
                     objs (Objs t')"
    using fixTargetNamespace_cluster_scoped [of cv objs ns] by auto
qed

theorem templateClient_Get_namespace_invariant_witness:
  "\<not> listVariablesOnly demoClient
   \<and> snd (templateClient_Get demoFs demoCollaborators demoClient ''v1.0.0'' [] ''target'')
       = Inr demoRendered
   \<and> TargetNamespace demoRendered = ''target''
   \<and> map (\<lambda>obj. (namespaceScoped demoCollaborators (objKind obj), objNamespace obj))
         (Objs demoRendered) = [(True, ''target''), (False, [])]
   \<and> Objs demoRendered ! 1 = demoObjects ! 1
   \<and> \<not> tc_listVariablesOnly demoClient_tp
   \<and> snd (templateClient_Get_tp demoFs demoCollaborators demoClient_tp ''v1.0.0'' [] ''target'')
       = Inr (demoRendered \<lparr> Variables := [''CLUSTER_NAME''],
                             RawYaml := ''name: ${CLUSTER_NAME}'' \<rparr>)"
  using templateClient_Get_namespace_invariant
          [where c = demoClient and fs = demoFs and cv = demoCollaborators
             and version = "''v1.0.0''" and flavor = "[]" and ns = "''target''"
             and t = demoRendered and c' = demoClient_tp
             and t' = "demoRendered \<lparr> Variables := [''CLUSTER_NAME''],
                                     RawYaml := ''name: ${CLUSTER_NAME}'' \<rparr>"]
  by (simp add: demo_Get demo_Get_tp demo_fields)
     (simp add: demoRendered_def demoCollaborators_def demoObjects_def)

section \<open>Backend selection\<close>

text \<open>
  Claim C4. For a provider URL that parses, at the construction of the client
  (\<^verbatim>\<open>newRepositoryClient\<close> and \<^verbatim>\<open>New\<close> without options, through
  \<^verbatim>\<open>repositoryFactory\<close>): scheme \<^verbatim>\<open>https\<close> with host \<^verbatim>\<open>github.com\<close>
  calls the constructor of the GitHub backend, and the client that is built holds the
  repository that constructor returned (its error is returned wrapped, and no client);
  scheme \<^verbatim>\<open>file\<close> or the empty scheme does the same with the local filesystem
  backend; any other scheme and host calls neither constructor and fails with an
  error that carries the scheme, so that no client and no backend is built.
\<close>

theorem repositoryFactory_selection:
  "Parse b (URL prov) = Inr u \<longrightarrow>
     (Scheme u = ''https'' \<and> Host u = ''github.com''
        \<longrightarrow> repositoryFactory b prov vc
              = ([EvParseURL (URL prov), EvNewGitHubRepository],
                 case newGitHubRepository b prov vc of
                   Inl err \<Rightarrow> Inl (Wrapf err ''error creating the GitHub repository client'' [])
                 | Inr repo \<Rightarrow> Inr repo)
            \<and> newRepositoryClient b prov vc []
              = ([EvParseURL (URL prov), EvNewGitHubRepository],
                 case newGitHubRepository b prov vc of
                   Inl err \<Rightarrow>
                     Inl (Wrapf (Wrapf err ''error creating the GitHub repository client'' [])
                            ''failed to get repository client for the %s with name %s''
                            [Type prov, Name prov])
                 | Inr repo \<Rightarrow>
                     Inr \<lparr> rc_Provider = prov, rc_configVariablesClient = vc,
                           rc_repository = Some repo \<rparr>))
     \<and> (Scheme u = ''file'' \<or> Scheme u = []
        \<longrightarrow> repositoryFactory b prov vc
              = ([EvParseURL (URL prov), EvNewLocalRepository],
                 case newLocalRepository b prov vc of
                   Inl err \<Rightarrow>
                     Inl (Wrapf err ''error creating the local filesystem repository client'' [])
                 | Inr repo \<Rightarrow> Inr repo)
            \<and> newRepositoryClient b prov vc []
              = ([EvParseURL (URL prov), EvNewLocalRepository],
                 case newLocalRepository b prov vc of
                   Inl err \<Rightarrow>
                     Inl (Wrapf
                            (Wrapf err ''error creating the local filesystem repository client'' [])
                            ''failed to get repository client for the %s with name %s''
                            [Type prov, Name prov])
                 | Inr repo \<Rightarrow>
                     Inr \<lparr> rc_Provider = prov, rc_configVariablesClient = vc,
                           rc_repository = Some repo \<rparr>))
     \<and> (\<not> (Scheme u = ''https'' \<and> Host u = ''github.com'')
          \<and> Scheme u \<noteq> ''file'' \<and> Scheme u \<noteq> []
        \<longrightarrow> repositoryFactory b prov vc
              = ([EvParseURL (URL prov)],
                 Inl (Errorf
                        ''invalid provider url. there are no provider implementation for %q schema''
                        [Scheme u]))
            \<and> newRepositoryClient b prov vc []
              = ([EvParseURL (URL prov)],
                 Inl (Wrapf
                        (Errorf
                           ''invalid provider url. there are no provider implementation for %q schema''
                           [Scheme u])
                        ''failed to get repository client for the %s with name %s''
                        [Type prov, Name prov])))
     \<and> New b prov vc [] = newRepositoryClient b prov vc []"
proof (intro impI conjI)
  assume p: "Parse b (URL prov) = Inr u"
  {
    assume g: "Scheme u = ''https'' \<and> Host u = ''github.com''"
    with p show f: "repositoryFactory b prov vc
              = ([EvParseURL (URL prov), EvNewGitHubRepository],
                 case newGitHubRepository b prov vc of
                   Inl err \<Rightarrow> Inl (Wrapf err ''error creating the GitHub repository client'' [])
                 | Inr repo \<Rightarrow> Inr repo)"
      by (simp add: repositoryFactory_def httpsScheme_def githubDomain_def split: sum.splits)
    show "newRepositoryClient b prov vc []
              = ([EvParseURL (URL prov), EvNewGitHubRepository],
                 case newGitHubRepository b prov vc of
                   Inl err \<Rightarrow>
                     Inl (Wrapf (Wrapf err ''error creating the GitHub repository client'' [])
                            ''failed to get repository client for the %s with name %s''
                            [Type prov, Name prov])
                 | Inr repo \<Rightarrow>
                     Inr \<lparr> rc_Provider = prov, rc_configVariablesClient = vc,
                           rc_repository = Some repo \<rparr>)"
      by (simp add: newRepositoryClient_def f split: sum.splits)
  }
  {
    assume l: "Scheme u = ''file'' \<or> Scheme u = []"
    with p show f: "repositoryFactory b prov vc
              = ([EvParseURL (URL prov), EvNewLocalRepository],
                 case newLocalRepository b prov vc of
                   Inl err \<Rightarrow>
                     Inl (Wrapf err ''error creating the local filesystem repository client'' [])
                 | Inr repo \<Rightarrow> Inr repo)"
      by (auto simp: repositoryFactory_def httpsScheme_def githubDomain_def split: sum.splits)
    show "newRepositoryClient b prov vc []
              = ([EvParseURL (URL prov), EvNewLocalRepository],
                 case newLocalRepository b prov vc of
                   Inl err \<Rightarrow>
                     Inl (Wrapf
                            (Wrapf err ''error creating the local filesystem repository client'' [])
                            ''failed to get repository client for the %s with name %s''
                            [Type prov, Name prov])
                 | Inr repo \<Rightarrow>
                     Inr \<lparr> rc_Provider = prov, rc_configVariablesClient = vc,
                           rc_repository = Some repo \<rparr>)"
      by (simp add: newRepositoryClient_def f split: sum.splits)
  }
  {
    assume o: "\<not> (Scheme u = ''https'' \<and> Host u = ''github.com'')
          \<and> Scheme u \<noteq> ''file'' \<and> Scheme u \<noteq> []"
    with p show f: "repositoryFactory b prov vc
              = ([EvParseURL (URL prov)],
                 Inl (Errorf
                        ''invalid provider url. there are no provider implementation for %q schema''
                        [Scheme u]))"
      by (auto simp: repositoryFactory_def httpsScheme_def githubDomain_def)
    show "newRepositoryClient b prov vc []
              = ([EvParseURL (URL prov)],
                 Inl (Wrapf
                        (Errorf
                           ''invalid provider url. there are no provider implementation for %q schema''
                           [Scheme u])
                        ''failed to get repository client for the %s with name %s''
                        [Type prov, Name prov]))"
      by (simp add: newRepositoryClient_def f)
  }
  show "New b prov vc [] = newRepositoryClient b prov vc []"
    by (simp add: New_def)
qed

theorem repositoryFactory_selection_witness:
  "Parse demoBackends (URL demoProvider) = Inr \<lparr> Scheme = ''https'', Host = ''github.com'' \<rparr>
   \<and> repositoryFactory demoBackends demoProvider demoVariables
       = ([EvParseURL (URL demoProvider), EvNewGitHubRepository], Inr demoRepository)
   \<and> newRepositoryClient demoBackends demoProvider demoVariables []
       = ([EvParseURL (URL demoProvider), EvNewGitHubRepository],
          Inr \<lparr> rc_Provider = demoProvider, rc_configVariablesClient = demoVariables,
                rc_repository = Some demoRepository \<rparr>)
   \<and> Parse demoBackends (URL demoLocalProvider) = Inr \<lparr> Scheme = [], Host = [] \<rparr>
   \<and> repositoryFactory demoBackends demoLocalProvider demoVariables
       = ([EvParseURL (URL demoLocalProvider), EvNewLocalRepository],
          Inr (demoRepository \<lparr> RootPath := ''/tmp/bootstrap-foo'' \<rparr>))
   \<and> newRepositoryClient demoBackends demoLocalProvider demoVariables []
       = ([EvParseURL (URL demoLocalProvider), EvNewLocalRepository],
          Inr \<lparr> rc_Provider = demoLocalProvider, rc_configVariablesClient = demoVariables,
                rc_repository = Some (demoRepository \<lparr> RootPath := ''/tmp/bootstrap-foo'' \<rparr>) \<rparr>)
   \<and> Parse demoBackends (URL demoHttpProvider) = Inr \<lparr> Scheme = ''http'', Host = ''github.com'' \<rparr>
   \<and> repositoryFactory demoBackends demoHttpProvider demoVariables
       = ([EvParseURL (URL demoHttpProvider)],
          Inl (Errorf ''invalid provider url. there are no provider implementation for %q schema''
                 [''http'']))
   \<and> newRepositoryClient demoBackends demoHttpProvider demoVariables []
       = ([EvParseURL (URL demoHttpProvider)],
          Inl (Wrapf
                 (Errorf ''invalid provider url. there are no provider implementation for %q schema''
                    [''http''])
                 ''failed to get repository client for the %s with name %s''
                 [''InfrastructureProvider'', ''aws'']))"
  using repositoryFactory_selection
          [where b = demoBackends and prov = demoProvider and vc = demoVariables
             and u = "\<lparr> Scheme = ''https'', Host = ''github.com'' \<rparr>"]
        repositoryFactory_selection
          [where b = demoBackends and prov = demoLocalProvider and vc = demoVariables
             and u = "\<lparr> Scheme = [], Host = [] \<rparr>"]
        repositoryFactory_selection
          [where b = demoBackends and prov = demoHttpProvider and vc = demoVariables
             and u = "\<lparr> Scheme = ''http'', Host = ''github.com'' \<rparr>"]
  by (simp add: demoBackends_def demoProvider_def demoLocalProvider_def demoHttpProvider_def)

section \<open>Injected repositories\<close>

text \<open>
  Claim C9. When the last option injects a repository that is not nil,
  \<^verbatim>\<open>newRepositoryClient\<close> and \<^verbatim>\<open>New\<close> succeed with that repository and
  without any call: the provider URL is not parsed and no backend constructor runs,
  whatever the URL and the parser are.
\<close>

theorem newRepositoryClient_injected:
  "newRepositoryClient b prov vc (options @ [InjectRepository (Some repo)])
     = ([], Inr ((fold (\<lambda>opt c. opt c) options
                    \<lparr> rc_Provider = prov, rc_configVariablesClient = vc, rc_repository = None \<rparr>)
                 \<lparr> rc_repository := Some repo \<rparr>))
   \<and> New b prov vc (options @ [InjectRepository (Some repo)])
     = newRepositoryClient b prov vc (options @ [InjectRepository (Some repo)])"
  by (simp add: newRepositoryClient_def New_def InjectRepository_def)

theorem newRepositoryClient_injected_witness:
  "snd (newRepositoryClient demoBackends demoBadProvider demoVariables [])
     = Inl (Wrapf (Errorf ''failed to parse repository url %q'' [''https://github.com/%zz''])
              ''failed to get repository client for the %s with name %s''
              [''InfrastructureProvider'', ''aws''])
   \<and> newRepositoryClient demoBackends demoBadProvider demoVariables
        [InjectRepository (Some demoRepository)]
     = ([], Inr \<lparr> rc_Provider = demoBadProvider, rc_configVariablesClient = demoVariables,
                  rc_repository = Some demoRepository \<rparr>)"
  using newRepositoryClient_injected
          [where b = demoBackends and prov = demoBadProvider and vc = demoVariables
             and options = "[]" and repo = demoRepository]
  by (simp add: newRepositoryClient_def repositoryFactory_def demoBackends_def
        demoBadProvider_def demoProvider_def)

end
